theory Spec2Isabelle
  imports Complex_Main
begin

section \<open>Values the notebook computes with\<close>

text \<open>
  The notebook \<^verbatim>\<open>tutorials/quick_start.ipynb\<close> is Python on top of numpy, paddle and
  pgl. A Python call either returns or raises; a raise ends the cell. Calls are therefore
  modelled with results in \<open>'x exn + 'r\<close>, where \<open>Inl\<close> carries the exception: the
  exceptions Python and numpy raise for the operations the notebook uses, and \<open>Other\<close>
  for whatever a paddle or pgl call raises.
\<close>

datatype 'x exn = ValueError | KeyError | IndexError | TypeError | Other 'x

text \<open>Sequencing of two statements: the second runs only if the first returned.\<close>

fun andThen :: "'e + 'r \<Rightarrow> ('r \<Rightarrow> 'e + 'q) \<Rightarrow> 'e + 'q" where
  "andThen (Inl e) k = Inl e"
| "andThen (Inr r) k = k r"

text \<open>
  A numpy array or paddle tensor: its element type tag, its shape and its elements in
  row-major order. The elements themselves are floating-point numbers whose arithmetic is
  not modelled, so their type is a parameter.
\<close>

datatype dtype = Float64 | Float32 | Int64

record 'a ndarray =
  nd_dtype :: dtype
  nd_shape :: "nat list"
  nd_data :: "'a list"

text \<open>
  numpy's global random generator is the stream of the samples it will still hand out.
  \<^verbatim>\<open>np.random.randn(r, c)\<close> takes the next \<open>r * c\<close> samples as a float64 array of shape
  \<open>(r, c)\<close>, and raises ValueError on a negative dimension.
\<close>

type_synonym 'a rng = "nat \<Rightarrow> 'a"

definition randn :: "'a rng \<Rightarrow> int \<Rightarrow> int \<Rightarrow> 'x exn + ('a ndarray \<times> 'a rng)" where
  "randn gen r c =
     (if r < 0 \<or> c < 0 then Inl ValueError
      else
        let n = nat r * nat c in
        Inr (\<lparr>nd_dtype = Float64, nd_shape = [nat r, nat c], nd_data = map gen [0..<n]\<rparr>,
             (\<lambda>k. gen (k + n))))"

text \<open>
  \<^verbatim>\<open>a.astype(t)\<close>: a new array of the same shape whose elements are those of \<open>a\<close>
  converted to \<open>t\<close>; the conversion of one element is the parameter \<open>cast\<close>.
\<close>

definition astype :: "(dtype \<Rightarrow> 'a \<Rightarrow> 'a) \<Rightarrow> 'a ndarray \<Rightarrow> dtype \<Rightarrow> 'a ndarray" where
  "astype cast a t = \<lparr>nd_dtype = t, nd_shape = nd_shape a, nd_data = map (cast t) (nd_data a)\<rparr>"

text \<open>
  \<^verbatim>\<open>a[0]\<close> on an array: IndexError when the array has no axis or its first axis is empty,
  otherwise the first slice along the first axis.
\<close>

definition getitem0 :: "'a ndarray \<Rightarrow> 'x exn + 'a ndarray" where
  "getitem0 a =
     (case nd_shape a of
        [] \<Rightarrow> Inl IndexError
      | n # ns \<Rightarrow>
          if n = 0 then Inl IndexError
          else Inr \<lparr>nd_dtype = nd_dtype a, nd_shape = ns, nd_data = take (prod_list ns) (nd_data a)\<rparr>)"

text \<open>\<^verbatim>\<open>dict[key]\<close>: KeyError when the key is absent.\<close>

definition dict_getitem :: "('k \<rightharpoonup> 'v) \<Rightarrow> 'k \<Rightarrow> 'x exn + 'v" where
  "dict_getitem m k = (case m k of None \<Rightarrow> Inl KeyError | Some v \<Rightarrow> Inr v)"

section \<open>Step 1: the graph\<close>

text \<open>
  \<^verbatim>\<open>pgl.Graph(edges=, num_nodes=, node_feat=, edge_feat=)\<close> packages its four arguments
  into one object; \<^verbatim>\<open>g.num_edges\<close> is the number of entries of the edge list. The class
  is pgl's; what its constructor checks about its arguments is not modelled, the
  requirement that the endpoints of the edges index nodes is stated where it is proved of
  the notebook's edge list.
\<close>

record 'a graph =
  edges :: "(int \<times> int) list"
  num_nodes :: int
  node_feat :: "string \<rightharpoonup> 'a ndarray"
  edge_feat :: "string \<rightharpoonup> 'a ndarray"

definition Graph ::
  "(int \<times> int) list \<Rightarrow> int \<Rightarrow> (string \<rightharpoonup> 'a ndarray) \<Rightarrow> (string \<rightharpoonup> 'a ndarray) \<Rightarrow> 'a graph" where
  "Graph es n nf ef = \<lparr>edges = es, num_nodes = n, node_feat = nf, edge_feat = ef\<rparr>"

definition num_edges :: "'a graph \<Rightarrow> int" where
  "num_edges gr = int (length (edges gr))"

text \<open>The two literals of \<^verbatim>\<open>build_graph\<close> that later cells refer to.\<close>

definition num_node :: int where
  "num_node = 10"

definition edge_list :: "(int \<times> int) list" where
  "edge_list = [(2, 0), (2, 1), (3, 1), (4, 0), (5, 0),
                (6, 0), (6, 4), (6, 5), (7, 0), (7, 1),
                (7, 2), (7, 3), (8, 0), (9, 7)]"

text \<open>
  \<^verbatim>\<open>build_graph()\<close>. It reads numpy's generator twice, so the generator is passed in and
  returned.
\<close>

definition build_graph :: "(dtype \<Rightarrow> 'a \<Rightarrow> 'a) \<Rightarrow> 'a rng \<Rightarrow> 'x exn + ('a graph \<times> 'a rng)" where
  "build_graph cast gen0 =
     (let d = 16 in
      andThen (randn gen0 num_node d) (\<lambda>(a1, gen1).
      let feature = astype cast a1 Float32 in
      andThen (randn gen1 (int (length edge_list)) 1) (\<lambda>(a2, gen2).
      let edge_feature = astype cast a2 Float32 in
      let gr = Graph edge_list num_node [''nfeat'' \<mapsto> feature] [''efeat'' \<mapsto> edge_feature] in
      Inr (gr, gen2))))"

section \<open>The library\<close>

text \<open>
  paddle and pgl are not part of the notebook. Their operations are parameters of the
  model: one field per operation the notebook calls. Each operation may read and change
  the framework's state \<open>'s\<close> (parameter values, gradients, the autograd tape, the
  optimizer's moments) and may raise. Objects the library creates (layers, the loss
  function, the parameter list, the optimizer) are handles of type \<open>'h\<close>.
\<close>

record ('a, 'h, 's, 'x) lib =
  GCNConv :: "int \<Rightarrow> int \<Rightarrow> string \<Rightarrow> bool \<Rightarrow> 's \<Rightarrow> 'x exn + ('h \<times> 's)"
    \<comment> \<open>\<^verbatim>\<open>pgl.nn.GCNConv(input_size, output_size, activation=, norm=)\<close>\<close>
  Linear :: "int \<Rightarrow> int \<Rightarrow> 's \<Rightarrow> 'x exn + ('h \<times> 's)"
    \<comment> \<open>\<^verbatim>\<open>nn.Linear(in_features, out_features)\<close>\<close>
  call_graph_feature :: "'h \<Rightarrow> 'a graph \<Rightarrow> 'a ndarray \<Rightarrow> 's \<Rightarrow> 'x exn + ('a ndarray \<times> 's)"
    \<comment> \<open>\<^verbatim>\<open>m(graph, feature)\<close> on a layer\<close>
  call_feature :: "'h \<Rightarrow> 'a ndarray \<Rightarrow> 's \<Rightarrow> 'x exn + ('a ndarray \<times> 's)"
    \<comment> \<open>\<^verbatim>\<open>m(feature)\<close> on a layer\<close>
  graph_tensor :: "'a graph \<Rightarrow> 's \<Rightarrow> 'x exn + ('a graph \<times> 's)"
    \<comment> \<open>\<^verbatim>\<open>g.tensor()\<close>\<close>
  to_tensor :: "int list \<Rightarrow> 's \<Rightarrow> 'x exn + (int ndarray \<times> 's)"
    \<comment> \<open>\<^verbatim>\<open>paddle.to_tensor(y)\<close> on a list of Python ints\<close>
  CrossEntropyLoss :: "'s \<Rightarrow> 'x exn + ('h \<times> 's)"
    \<comment> \<open>\<^verbatim>\<open>paddle.nn.loss.CrossEntropyLoss()\<close>\<close>
  parameters :: "'h list \<Rightarrow> 'h \<Rightarrow> 's \<Rightarrow> 'x exn + ('h \<times> 's)"
    \<comment> \<open>\<^verbatim>\<open>gcn.parameters()\<close>, from the sublayers \<^verbatim>\<open>gcns\<close> and \<^verbatim>\<open>output\<close>\<close>
  Adam :: "real \<Rightarrow> 'h \<Rightarrow> 's \<Rightarrow> 'x exn + ('h \<times> 's)"
    \<comment> \<open>\<^verbatim>\<open>Adam(learning_rate=, parameters=)\<close>\<close>
  train :: "'h list \<Rightarrow> 'h \<Rightarrow> 's \<Rightarrow> 'x exn + 's"
    \<comment> \<open>\<^verbatim>\<open>gcn.train()\<close>\<close>
  call_criterion :: "'h \<Rightarrow> 'a ndarray \<Rightarrow> int ndarray \<Rightarrow> 's \<Rightarrow> 'x exn + ('a ndarray \<times> 's)"
    \<comment> \<open>\<^verbatim>\<open>criterion(logits, y)\<close>\<close>
  backward :: "'a ndarray \<Rightarrow> 's \<Rightarrow> 'x exn + 's"
    \<comment> \<open>\<^verbatim>\<open>loss.backward()\<close>\<close>
  step :: "'h \<Rightarrow> 's \<Rightarrow> 'x exn + 's"
    \<comment> \<open>\<^verbatim>\<open>optim.step()\<close>\<close>
  clear_grad :: "'h \<Rightarrow> 's \<Rightarrow> 'x exn + 's"
    \<comment> \<open>\<^verbatim>\<open>optim.clear_grad()\<close>\<close>
  numpy :: "'a ndarray \<Rightarrow> 's \<Rightarrow> 'x exn + ('a ndarray \<times> 's)"
    \<comment> \<open>\<^verbatim>\<open>loss.numpy()\<close>\<close>

section \<open>Step 2: the class GCN\<close>

text \<open>An instance of \<^verbatim>\<open>GCN\<close>: the attributes \<^verbatim>\<open>__init__\<close> assigns.\<close>

record 'h GCN =
  num_class :: int
  num_layers :: int
  hidden_size :: int
  gcns :: "'h list"
  "output" :: 'h

text \<open>\<^verbatim>\<open>range(n)\<close> for a Python int: empty when \<open>n \<le> 0\<close>.\<close>

definition py_range :: "int \<Rightarrow> int list" where
  "py_range n = map int [0..<nat n]"

text \<open>
  The loop of \<^verbatim>\<open>GCN.__init__\<close> over the remaining indices; \<open>acc\<close> is \<^verbatim>\<open>self.gcns\<close> so
  far.
\<close>

fun init_gcns ::
  "('a, 'h, 's, 'x) lib \<Rightarrow> int \<Rightarrow> int \<Rightarrow> int list \<Rightarrow> 'h list \<Rightarrow> 's \<Rightarrow> 'x exn + ('h list \<times> 's)" where
  "init_gcns L input_size hidden [] acc s = Inr (acc, s)"
| "init_gcns L input_size hidden (i # rest) acc s =
     (if i = 0 then
        andThen (GCNConv L input_size hidden ''relu'' True s) (\<lambda>(m, s').
        init_gcns L input_size hidden rest (acc @ [m]) s')
      else
        andThen (GCNConv L hidden hidden ''relu'' True s) (\<lambda>(m, s').
        init_gcns L input_size hidden rest (acc @ [m]) s'))"

text \<open>
  \<^verbatim>\<open>GCN.__init__(self, input_size, num_class, num_layers, hidden_size)\<close>. The calls
  \<^verbatim>\<open>super().__init__()\<close> and \<^verbatim>\<open>nn.LayerList()\<close> take no argument of the notebook and
  create the empty containers; the layer list starts empty.
\<close>

definition GCN_init ::
  "('a, 'h, 's, 'x) lib \<Rightarrow> int \<Rightarrow> int \<Rightarrow> int \<Rightarrow> int \<Rightarrow> 's \<Rightarrow> 'x exn + ('h GCN \<times> 's)" where
  "GCN_init L input_size nclass nlayers hidden s0 =
     andThen (init_gcns L input_size hidden (py_range nlayers) [] s0) (\<lambda>(ls, s1).
     andThen (Linear L hidden nclass s1) (\<lambda>(out, s2).
     Inr (\<lparr>num_class = nclass, num_layers = nlayers, hidden_size = hidden,
           gcns = ls, output = out\<rparr>, s2)))"

text \<open>\<^verbatim>\<open>GCN(input_size, num_class)\<close> with the defaults \<^verbatim>\<open>num_layers=2, hidden_size=16\<close>.\<close>

definition GCN_default ::
  "('a, 'h, 's, 'x) lib \<Rightarrow> int \<Rightarrow> int \<Rightarrow> 's \<Rightarrow> 'x exn + ('h GCN \<times> 's)" where
  "GCN_default L input_size nclass = GCN_init L input_size nclass 2 16"

text \<open>
  Python does not type the arguments of \<^verbatim>\<open>__init__\<close>. The sizes are only handed on to
  the library, but \<^verbatim>\<open>num_layers\<close> is an argument the notebook itself uses: it is handed to
  the built-in \<^verbatim>\<open>range\<close>, which raises TypeError unless it is an integer. The constructor
  on any value of \<^verbatim>\<open>num_layers\<close>: an integer, a float, \<^verbatim>\<open>None\<close> or a string.
\<close>

datatype pyval = PyInt int | PyFloat real | PyNone | PyStr string

definition GCN_init_any ::
  "('a, 'h, 's, 'x) lib \<Rightarrow> int \<Rightarrow> int \<Rightarrow> pyval \<Rightarrow> int \<Rightarrow> 's \<Rightarrow> 'x exn + ('h GCN \<times> 's)" where
  "GCN_init_any L input_size nclass nlayers hidden s0 =
     (case nlayers of
        PyInt n \<Rightarrow> GCN_init L input_size nclass n hidden s0
      | PyFloat x \<Rightarrow> Inl TypeError
      | PyNone \<Rightarrow> Inl TypeError
      | PyStr w \<Rightarrow> Inl TypeError)"

text \<open>The loop of \<^verbatim>\<open>GCN.forward\<close> over the remaining layers.\<close>

fun forward_gcns ::
  "('a, 'h, 's, 'x) lib \<Rightarrow> 'h list \<Rightarrow> 'a graph \<Rightarrow> 'a ndarray \<Rightarrow> 's \<Rightarrow> 'x exn + ('a ndarray \<times> 's)" where
  "forward_gcns L [] gr feature s = Inr (feature, s)"
| "forward_gcns L (m # ms) gr feature s =
     andThen (call_graph_feature L m gr feature s) (\<lambda>(feature', s').
     forward_gcns L ms gr feature' s')"

text \<open>\<^verbatim>\<open>GCN.forward(self, graph, feature)\<close>.\<close>

definition forward ::
  "('a, 'h, 's, 'x) lib \<Rightarrow> 'h GCN \<Rightarrow> 'a graph \<Rightarrow> 'a ndarray \<Rightarrow> 's \<Rightarrow> 'x exn + ('a ndarray \<times> 's)" where
  "forward L self gr feature s =
     andThen (forward_gcns L (gcns self) gr feature s) (\<lambda>(feature', s1).
     andThen (call_feature L (output self) feature' s1) (\<lambda>(logits, s2).
     Inr (logits, s2)))"

section \<open>Steps 3 and 4: labels, set-up and the training loop\<close>

text \<open>
  The list literal bound to \<^verbatim>\<open>y\<close> in step 3, before step 4 rebinds the name to a tensor.
  (\<^verbatim>\<open>label\<close>, assigned next to it, is never read.)
\<close>

definition y_list :: "int list" where
  "y_list = [0, 1, 1, 1, 0, 0, 0, 1, 0, 1]"

text \<open>What a cell has printed: one entry per \<^verbatim>\<open>print\<close>, holding the values formatted.\<close>

datatype 'a line = NodesLine int | EdgesLine int | EpochLine int "'a ndarray"

text \<open>
  The notebook's global names from step 4 on. \<^verbatim>\<open>logits\<close>, \<^verbatim>\<open>loss\<close> and \<^verbatim>\<open>epoch\<close> are
  unbound (\<open>None\<close>) until the loop assigns them.
\<close>

record ('a, 'h) notebook =
  g :: "'a graph"
  y :: "int ndarray"
  gcn :: "'h GCN"
  criterion :: 'h
  optim :: 'h
  logits :: "'a ndarray option"
  loss :: "'a ndarray option"
  epoch :: "int option"
  stdout :: "'a line list"

text \<open>The cell that prints the size of the graph \<^verbatim>\<open>g = build_graph()\<close>.\<close>

definition print_sizes :: "'a graph \<Rightarrow> 'a line list" where
  "print_sizes g0 = [NodesLine (num_nodes g0), EdgesLine (num_edges g0)]"

text \<open>
  The first cell of step 4, run on the graph \<open>g0\<close> of step 1. The output so far is
  what the cell before printed about \<open>g0\<close>.
\<close>

definition setup_cell ::
  "('a, 'h, 's, 'x) lib \<Rightarrow> 'a graph \<Rightarrow> 's \<Rightarrow> 'x exn + (('a, 'h) notebook \<times> 's)" where
  "setup_cell L g0 s0 =
     andThen (graph_tensor L g0 s0) (\<lambda>(g1, s1).
     andThen (to_tensor L y_list s1) (\<lambda>(y1, s2).
     andThen (GCN_default L 16 2 s2) (\<lambda>(gcn1, s3).
     andThen (CrossEntropyLoss L s3) (\<lambda>(crit, s4).
     andThen (parameters L (gcns gcn1) (output gcn1) s4) (\<lambda>(ps, s5).
     andThen (Adam L 0.01 ps s5) (\<lambda>(opt, s6).
     Inr (\<lparr>g = g1, y = y1, gcn = gcn1, criterion = crit, optim = opt,
           logits = None, loss = None, epoch = None, stdout = print_sizes g0\<rparr>, s6)))))))"

text \<open>
  One iteration of the training loop, for the value \<open>ep\<close> of \<^verbatim>\<open>epoch\<close>.
  \<^verbatim>\<open>gcn(g, x)\<close> runs \<^verbatim>\<open>GCN.forward\<close>.
\<close>

definition epoch_body ::
  "('a, 'h, 's, 'x) lib \<Rightarrow> ('a, 'h) notebook \<Rightarrow> int \<Rightarrow> 's \<Rightarrow> 'x exn + (('a, 'h) notebook \<times> 's)" where
  "epoch_body L nb ep s0 =
     andThen (dict_getitem (node_feat (g nb)) ''nfeat'') (\<lambda>nfeat.
     andThen (forward L (gcn nb) (g nb) nfeat s0) (\<lambda>(lg, s1).
     andThen (call_criterion L (criterion nb) lg (y nb) s1) (\<lambda>(ls, s2).
     andThen (backward L ls s2) (\<lambda>s3.
     andThen (step L (optim nb) s3) (\<lambda>s4.
     andThen (clear_grad L (optim nb) s4) (\<lambda>s5.
     andThen (numpy L ls s5) (\<lambda>(arr, s6).
     andThen (getitem0 arr) (\<lambda>v.
     Inr (nb\<lparr>logits := Some lg, loss := Some ls, epoch := Some ep,
             stdout := stdout nb @ [EpochLine ep v]\<rparr>, s6)))))))))"

text \<open>The \<^verbatim>\<open>for\<close> loop over the epochs still to run.\<close>

fun run_epochs ::
  "('a, 'h, 's, 'x) lib \<Rightarrow> ('a, 'h) notebook \<Rightarrow> int list \<Rightarrow> 's \<Rightarrow> 'x exn + (('a, 'h) notebook \<times> 's)" where
  "run_epochs L nb [] s = Inr (nb, s)"
| "run_epochs L nb (ep # eps) s =
     andThen (epoch_body L nb ep s) (\<lambda>(nb', s').
     run_epochs L nb' eps s')"

text \<open>\<^verbatim>\<open>for epoch in range(30): ...\<close>\<close>

definition training_loop ::
  "('a, 'h, 's, 'x) lib \<Rightarrow> ('a, 'h) notebook \<Rightarrow> 's \<Rightarrow> 'x exn + (('a, 'h) notebook \<times> 's)" where
  "training_loop L nb s = run_epochs L nb (py_range 30) s"

text \<open>The last cell: \<^verbatim>\<open>gcn.train()\<close>, then the loop.\<close>

definition training_cell ::
  "('a, 'h, 's, 'x) lib \<Rightarrow> ('a, 'h) notebook \<Rightarrow> 's \<Rightarrow> 'x exn + (('a, 'h) notebook \<times> 's)" where
  "training_cell L nb s0 =
     andThen (train L (gcns (gcn nb)) (output (gcn nb)) s0) (\<lambda>s1.
     training_loop L nb s1)"

text \<open>The whole notebook, cell after cell.\<close>

definition run_notebook ::
  "('a, 'h, 's, 'x) lib \<Rightarrow> (dtype \<Rightarrow> 'a \<Rightarrow> 'a) \<Rightarrow> 'a rng \<Rightarrow> 's \<Rightarrow> 'x exn + (('a, 'h) notebook \<times> 's)" where
  "run_notebook L cast gen s0 =
     andThen (build_graph cast gen) (\<lambda>(g0, gen').
     andThen (setup_cell L g0 s0) (\<lambda>(nb, s1).
     training_cell L nb s1))"

section \<open>Reference formulations\<close>

subsection \<open>The forward pass, layer by layer\<close>

text \<open>
  The forward pass as the specification words it: the layers of \<^verbatim>\<open>self.gcns\<close> are applied
  in index order, each to the graph and the running feature, and the linear output layer
  is applied to the final feature.
\<close>

definition run_layer ::
  "('a, 'h, 's, 'x) lib \<Rightarrow> 'h GCN \<Rightarrow> 'a graph \<Rightarrow> nat \<Rightarrow>
     'x exn + ('a ndarray \<times> 's) \<Rightarrow> 'x exn + ('a ndarray \<times> 's)" where
  "run_layer L self gr i running =
     andThen running (\<lambda>(feature, s). call_graph_feature L (gcns self ! i) gr feature s)"

definition forward_in_order ::
  "('a, 'h, 's, 'x) lib \<Rightarrow> 'h GCN \<Rightarrow> 'a graph \<Rightarrow> 'a ndarray \<Rightarrow> 's \<Rightarrow> 'x exn + ('a ndarray \<times> 's)" where
  "forward_in_order L self gr feature s =
     andThen (fold (run_layer L self gr) [0..<length (gcns self)] (Inr (feature, s)))
       (\<lambda>(final, s'). call_feature L (output self) final s')"

text \<open>The number of columns of a tensor: the extent of its last axis.\<close>

definition columns :: "'a ndarray \<Rightarrow> nat option" where
  "columns a = (case nd_shape a of [] \<Rightarrow> None | n # ns \<Rightarrow> Some (last (n # ns)))"

text \<open>
  What the library documents for \<^verbatim>\<open>nn.Linear(in_features, out_features)\<close>: a layer so
  constructed maps a tensor to one with \<open>out_features\<close> columns.
\<close>

definition linear_columns :: "('a, 'h, 's, 'x) lib \<Rightarrow> bool" where
  "linear_columns L \<longleftrightarrow>
     (\<forall>i out s h s' x t z t'.
        Linear L i out s = Inr (h, s') \<longrightarrow> call_feature L h x t = Inr (z, t') \<longrightarrow>
        columns z = Some (nat out) \<and> 0 \<le> out)"

subsection \<open>The layer list, without the branch\<close>

text \<open>\<open>k\<close> more layers, each made by \<open>mk\<close>, appended to \<open>acc\<close>.\<close>

fun append_layers ::
  "nat \<Rightarrow> ('s \<Rightarrow> 'x exn + ('h \<times> 's)) \<Rightarrow> 'h list \<Rightarrow> 's \<Rightarrow> 'x exn + ('h list \<times> 's)" where
  "append_layers 0 mk acc s = Inr (acc, s)"
| "append_layers (Suc k) mk acc s =
     andThen (mk s) (\<lambda>(m, s'). append_layers k mk (acc @ [m]) s')"

text \<open>
  The construction the specification describes: the layer from \<open>input_size\<close> to
  \<open>hidden\<close> first, then a layer from \<open>hidden\<close> to \<open>hidden\<close> for every later index, then
  the linear layer.
\<close>

definition GCN_init_straight ::
  "('a, 'h, 's, 'x) lib \<Rightarrow> int \<Rightarrow> int \<Rightarrow> int \<Rightarrow> int \<Rightarrow> 's \<Rightarrow> 'x exn + ('h GCN \<times> 's)" where
  "GCN_init_straight L input_size nclass nlayers hidden s0 =
     andThen
       (if nlayers \<le> 0 then Inr ([], s0)
        else
          andThen (GCNConv L input_size hidden ''relu'' True s0) (\<lambda>(m, s').
          append_layers (nat nlayers - 1) (GCNConv L hidden hidden ''relu'' True) [m] s'))
       (\<lambda>(ls, s1).
     andThen (Linear L hidden nclass s1) (\<lambda>(out, s2).
     Inr (\<lparr>num_class = nclass, num_layers = nlayers, hidden_size = hidden,
           gcns = ls, output = out\<rparr>, s2)))"

text \<open>Composition of operations that may raise: \<open>k1\<close> first, then \<open>k2\<close>.\<close>

definition kleisli :: "('p \<Rightarrow> 'e + 'q) \<Rightarrow> ('q \<Rightarrow> 'e + 'r) \<Rightarrow> 'p \<Rightarrow> 'e + 'r" where
  "kleisli k1 k2 = (\<lambda>p. andThen (k1 p) k2)"

definition conv_op ::
  "('a, 'h, 's, 'x) lib \<Rightarrow> 'a graph \<Rightarrow> 'h \<Rightarrow> 'a ndarray \<times> 's \<Rightarrow> 'x exn + ('a ndarray \<times> 's)" where
  "conv_op L gr m = (\<lambda>(feature, s). call_graph_feature L m gr feature s)"

definition linear_op ::
  "('a, 'h, 's, 'x) lib \<Rightarrow> 'h \<Rightarrow> 'a ndarray \<times> 's \<Rightarrow> 'x exn + ('a ndarray \<times> 's)" where
  "linear_op L h = (\<lambda>(feature, s). call_feature L h feature s)"

definition forward_composed ::
  "('a, 'h, 's, 'x) lib \<Rightarrow> 'h GCN \<Rightarrow> 'a graph \<Rightarrow> 'a ndarray \<times> 's \<Rightarrow> 'x exn + ('a ndarray \<times> 's)" where
  "forward_composed L self gr =
     kleisli (foldr (\<lambda>m rest. kleisli (conv_op L gr m) rest) (gcns self) Inr)
             (linear_op L (output self))"

subsection \<open>Recording the library calls\<close>

text \<open>
  To speak about which library operations a piece of the notebook performs, and in which
  order, any library is wrapped into one that behaves the same and also appends one event
  per returned call to a log kept beside the framework's state.
\<close>

datatype 'h event =
    Ev_GCNConv int int string bool
  | Ev_Linear int int
  | Ev_call_graph_feature 'h
  | Ev_call_feature 'h
  | Ev_graph_tensor
  | Ev_to_tensor
  | Ev_CrossEntropyLoss
  | Ev_parameters
  | Ev_Adam
  | Ev_train
  | Ev_call_criterion 'h
  | Ev_backward
  | Ev_step 'h
  | Ev_clear_grad 'h
  | Ev_numpy

definition logged ::
  "'h event \<Rightarrow> ('s \<Rightarrow> 'x exn + ('r \<times> 's)) \<Rightarrow> 's \<times> 'h event list \<Rightarrow>
     'x exn + ('r \<times> ('s \<times> 'h event list))" where
  "logged ev call = (\<lambda>(s, tr). andThen (call s) (\<lambda>(r, s'). Inr (r, (s', tr @ [ev]))))"

definition logged_state ::
  "'h event \<Rightarrow> ('s \<Rightarrow> 'x exn + 's) \<Rightarrow> 's \<times> 'h event list \<Rightarrow> 'x exn + ('s \<times> 'h event list)" where
  "logged_state ev call = (\<lambda>(s, tr). andThen (call s) (\<lambda>s'. Inr (s', tr @ [ev])))"

definition traced :: "('a, 'h, 's, 'x) lib \<Rightarrow> ('a, 'h, 's \<times> 'h event list, 'x) lib" where
  "traced L =
     \<lparr>GCNConv = (\<lambda>i out act nrm. logged (Ev_GCNConv i out act nrm) (GCNConv L i out act nrm)),
      Linear = (\<lambda>i out. logged (Ev_Linear i out) (Linear L i out)),
      call_graph_feature = (\<lambda>m gr x. logged (Ev_call_graph_feature m) (call_graph_feature L m gr x)),
      call_feature = (\<lambda>m x. logged (Ev_call_feature m) (call_feature L m x)),
      graph_tensor = (\<lambda>gr. logged Ev_graph_tensor (graph_tensor L gr)),
      to_tensor = (\<lambda>ys. logged Ev_to_tensor (to_tensor L ys)),
      CrossEntropyLoss = logged Ev_CrossEntropyLoss (CrossEntropyLoss L),
      parameters = (\<lambda>ls out. logged Ev_parameters (parameters L ls out)),
      Adam = (\<lambda>lr ps. logged Ev_Adam (Adam L lr ps)),
      train = (\<lambda>ls out. logged_state Ev_train (train L ls out)),
      call_criterion = (\<lambda>c lg ys. logged (Ev_call_criterion c) (call_criterion L c lg ys)),
      backward = (\<lambda>ls. logged_state Ev_backward (backward L ls)),
      step = (\<lambda>opt. logged_state (Ev_step opt) (step L opt)),
      clear_grad = (\<lambda>opt. logged_state (Ev_clear_grad opt) (clear_grad L opt)),
      numpy = (\<lambda>a. logged Ev_numpy (numpy L a))\<rparr>"

text \<open>
  The events of one iteration of the training loop: the forward pass (one call per layer
  of \<^verbatim>\<open>gcns\<close>, then the output layer), the loss, the backward pass, the optimizer step,
  the gradient clear, and the read of the loss value for printing.
\<close>

definition epoch_events :: "('a, 'h) notebook \<Rightarrow> 'h event list" where
  "epoch_events nb =
     map Ev_call_graph_feature (gcns (gcn nb)) @
     [Ev_call_feature (output (gcn nb)), Ev_call_criterion (criterion nb), Ev_backward,
      Ev_step (optim nb), Ev_clear_grad (optim nb), Ev_numpy]"

text \<open>
  The events of \<^verbatim>\<open>GCN.__init__\<close>: one \<^verbatim>\<open>GCNConv\<close> per index of \<^verbatim>\<open>range(num_layers)\<close>,
  with the input size at index 0 and the hidden size after it, then the \<^verbatim>\<open>Linear\<close> layer.
\<close>

definition init_events :: "int \<Rightarrow> int \<Rightarrow> int \<Rightarrow> int \<Rightarrow> 'h event list" where
  "init_events input_size nclass nlayers hidden =
     map (\<lambda>i. if i = 0 then Ev_GCNConv input_size hidden ''relu'' True
              else Ev_GCNConv hidden hidden ''relu'' True) (py_range nlayers) @
     [Ev_Linear hidden nclass]"

text \<open>The epoch number an output line of the loop shows.\<close>

fun line_epoch :: "'a line \<Rightarrow> int option" where
  "line_epoch (EpochLine ep v) = Some ep"
| "line_epoch (NodesLine n) = None"
| "line_epoch (EdgesLine n) = None"

subsection \<open>What the library documents about shapes\<close>

text \<open>
  The shapes the library's documentation promises, as far as the notebook relies on them:
  \<^verbatim>\<open>g.tensor()\<close> keeps the node count, the edges and the shape of every feature;
  a \<^verbatim>\<open>GCNConv\<close> layer with output size \<open>out\<close> maps one feature row per node to one row
  of \<open>out\<close> columns per node; a \<^verbatim>\<open>Linear\<close> layer with output size \<open>out\<close> replaces the
  last axis by \<open>out\<close>; \<^verbatim>\<open>paddle.to_tensor\<close> on a list yields the one-axis tensor of its
  entries.
\<close>

definition shape_contract :: "('a, 'h, 's, 'x) lib \<Rightarrow> bool" where
  "shape_contract L \<longleftrightarrow>
     (\<forall>gr s gr' s'. graph_tensor L gr s = Inr (gr', s') \<longrightarrow>
        num_nodes gr' = num_nodes gr \<and> edges gr' = edges gr \<and>
        (\<forall>k. map_option nd_shape (node_feat gr' k) = map_option nd_shape (node_feat gr k)) \<and>
        (\<forall>k. map_option nd_shape (edge_feat gr' k) = map_option nd_shape (edge_feat gr k))) \<and>
     (\<forall>i out act nrm s h s' gr x t z t' c.
        GCNConv L i out act nrm s = Inr (h, s') \<longrightarrow>
        call_graph_feature L h gr x t = Inr (z, t') \<longrightarrow>
        nd_shape x = [nat (num_nodes gr), c] \<longrightarrow>
        nd_shape z = [nat (num_nodes gr), nat out]) \<and>
     (\<forall>i out s h s' x t z t'.
        Linear L i out s = Inr (h, s') \<longrightarrow> call_feature L h x t = Inr (z, t') \<longrightarrow>
        nd_shape z = butlast (nd_shape x) @ [nat out]) \<and>
     (\<forall>ys s z s'. to_tensor L ys s = Inr (z, s') \<longrightarrow>
        nd_shape z = [length ys] \<and> nd_data z = ys)"

subsection \<open>A library that computes shapes only\<close>

text \<open>
  A small instance of the library interface, on which the notebook can be run inside the
  logic: tensors hold zeros, layers check the shape of their input, the state counts the
  objects created and the optimizer steps taken.
\<close>

datatype obj = Conv int int nat | Lin int int nat | Crit nat | Params nat | Opt nat

definition zeros :: "nat list \<Rightarrow> int ndarray" where
  "zeros sh = \<lparr>nd_dtype = Float32, nd_shape = sh, nd_data = replicate (prod_list sh) 0\<rparr>"

definition shape_conv :: "obj \<Rightarrow> int graph \<Rightarrow> int ndarray \<Rightarrow> nat \<Rightarrow> unit exn + (int ndarray \<times> nat)" where
  "shape_conv h gr x s =
     (case h of
        Conv i out k \<Rightarrow>
          (case nd_shape x of
             [r, c] \<Rightarrow>
               if int c = i \<and> int r = num_nodes gr then Inr (zeros [r, nat out], s)
               else Inl ValueError
           | _ \<Rightarrow> Inl ValueError)
      | _ \<Rightarrow> Inl (Other ()))"

definition shape_linear :: "obj \<Rightarrow> int ndarray \<Rightarrow> nat \<Rightarrow> unit exn + (int ndarray \<times> nat)" where
  "shape_linear h x s =
     (case h of
        Lin i out k \<Rightarrow>
          (case nd_shape x of
             [] \<Rightarrow> Inl ValueError
           | n # ns \<Rightarrow>
               if int (last (n # ns)) = i then Inr (zeros (butlast (n # ns) @ [nat out]), s)
               else Inl ValueError)
      | _ \<Rightarrow> Inl (Other ()))"

definition shape_criterion ::
  "obj \<Rightarrow> int ndarray \<Rightarrow> int ndarray \<Rightarrow> nat \<Rightarrow> unit exn + (int ndarray \<times> nat)" where
  "shape_criterion h lg ys s =
     (case nd_shape lg of
        [r, c] \<Rightarrow>
          if nd_shape ys = [r] \<and> list_all (\<lambda>k. 0 \<le> k \<and> k < int c) (nd_data ys)
          then Inr (zeros [1], s) else Inl ValueError
      | _ \<Rightarrow> Inl ValueError)"

definition shape_lib :: "(int, obj, nat, unit) lib" where
  "shape_lib =
     \<lparr>GCNConv = (\<lambda>i out act nrm s.
        if i \<le> 0 \<or> out \<le> 0 then Inl ValueError else Inr (Conv i out s, Suc s)),
      Linear = (\<lambda>i out s.
        if i \<le> 0 \<or> out \<le> 0 then Inl ValueError else Inr (Lin i out s, Suc s)),
      call_graph_feature = shape_conv,
      call_feature = shape_linear,
      graph_tensor = (\<lambda>gr s. Inr (gr, s)),
      to_tensor = (\<lambda>ys s. Inr (\<lparr>nd_dtype = Int64, nd_shape = [length ys], nd_data = ys\<rparr>, s)),
      CrossEntropyLoss = (\<lambda>s. Inr (Crit s, Suc s)),
      parameters = (\<lambda>ls out s. Inr (Params s, Suc s)),
      Adam = (\<lambda>lr ps s. Inr (Opt s, Suc s)),
      train = (\<lambda>ls out s. Inr s),
      call_criterion = shape_criterion,
      backward = (\<lambda>ls s. Inr s),
      step = (\<lambda>opt s. Inr (Suc s)),
      clear_grad = (\<lambda>opt s. Inr s),
      numpy = (\<lambda>a s. Inr (a, s))\<rparr>"

text \<open>The graph of step 1 when every sample drawn is zero and conversion keeps it.\<close>

definition zero_graph :: "int graph" where
  "zero_graph =
     Graph edge_list num_node [''nfeat'' \<mapsto> zeros [10, 16]] [''efeat'' \<mapsto> zeros [14, 1]]"

text \<open>The network \<^verbatim>\<open>GCN(16, 2)\<close> and the notebook's names as this library sets them up.\<close>

definition zero_gcn :: "obj GCN" where
  "zero_gcn = \<lparr>num_class = 2, num_layers = 2, hidden_size = 16,
               gcns = [Conv 16 16 0, Conv 16 16 1], output = Lin 16 2 2\<rparr>"

definition zero_notebook :: "(int, obj) notebook" where
  "zero_notebook =
     \<lparr>g = zero_graph,
      y = \<lparr>nd_dtype = Int64, nd_shape = [10], nd_data = y_list\<rparr>,
      gcn = zero_gcn, criterion = Crit 3, optim = Opt 5,
      logits = None, loss = None, epoch = None, stdout = print_sizes zero_graph\<rparr>"

subsection \<open>What a library call leaves alone\<close>





subsection \<open>A library with a memory\<close>





text \<open>
  Two notebooks on which an iteration raises: one whose labels have the wrong shape for
  the logits, one whose graph has lost its node feature.
\<close>

definition short_labels_notebook :: "(int, obj) notebook" where
  "short_labels_notebook =
     zero_notebook\<lparr>y := \<lparr>nd_dtype = Int64, nd_shape = [3], nd_data = [0, 1, 1]\<rparr>\<rparr>"

definition no_feature_notebook :: "(int, obj) notebook" where
  "no_feature_notebook =
     zero_notebook\<lparr>g := Graph edge_list num_node Map.empty Map.empty\<rparr>"

section \<open>Properties\<close>

subsection \<open>The graph of step 1\<close>

text \<open>
  Claim C3. \<^verbatim>\<open>build_graph()\<close> returns, whatever samples the generator hands out, one
  graph object holding the hard-coded edge list and both feature arrays: \<open>num_nodes\<close> is
  10, \<open>num_edges\<close> is 14, the length of the edge list, the node feature \<open>nfeat\<close> is a
  float32 array of shape \<open>(10, 16)\<close>, one 16-dimensional row per node, and the edge
  feature \<open>efeat\<close> is a float32 array of shape \<open>(14, 1)\<close>, one 1-dimensional row per
  edge.
\<close>

theorem build_graph_packages:
  "\<exists>gr gen' a b.
     (build_graph cast gen :: 'x exn + ('a graph \<times> 'a rng)) = Inr (gr, gen') \<and>
     num_nodes gr = 10 \<and> num_edges gr = 14 \<and> num_edges gr = int (length edge_list) \<and>
     node_feat gr ''nfeat'' = Some a \<and> nd_dtype a = Float32 \<and> nd_shape a = [10, 16] \<and>
     length (nd_data a) = 10 * 16 \<and>
     edge_feat gr ''efeat'' = Some b \<and> nd_dtype b = Float32 \<and> nd_shape b = [14, 1] \<and>
     length (nd_data b) = 14 * 1"
  by (simp add: build_graph_def randn_def astype_def Graph_def num_edges_def num_node_def
      edge_list_def Let_def)

text \<open>
  Claim C8. Every edge \<open>(src, dst)\<close> of the hard-coded edge list has both endpoints in
  \<open>0 \<le> _ < 10\<close>, the declared number of nodes, and \<^verbatim>\<open>build_graph\<close> hands this list and
  this number to the graph it constructs: the endpoints of the graph's edges index nodes
  of the graph.
\<close>

theorem edge_list_in_range:
  "num_node = 10 \<and>
   (\<forall>(src, dst) \<in> set edge_list. 0 \<le> src \<and> src < num_node \<and> 0 \<le> dst \<and> dst < num_node) \<and>
   (\<exists>gr gen'. (build_graph cast gen :: 'x exn + ('a graph \<times> 'a rng)) = Inr (gr, gen') \<and>
      edges gr = edge_list \<and> num_nodes gr = num_node)"
proof (intro conjI)
  show "num_node = 10"
    by (simp add: num_node_def)
  show "\<forall>(src, dst) \<in> set edge_list. 0 \<le> src \<and> src < num_node \<and> 0 \<le> dst \<and> dst < num_node"
    by (simp add: num_node_def edge_list_def)
  show "\<exists>gr gen'. (build_graph cast gen :: 'x exn + ('a graph \<times> 'a rng)) = Inr (gr, gen') \<and>
      edges gr = edge_list \<and> num_nodes gr = num_node"
    by (simp add: build_graph_def randn_def Graph_def num_node_def Let_def)
qed

text \<open>
  The last edge of the list, \<open>(9, 7)\<close>, is one of the edges the statement speaks about.
\<close>

theorem edge_list_in_range_witness:
  "(9, 7) \<in> set edge_list \<and> num_node = 10 \<and>
   (0::int) \<le> 9 \<and> 9 < num_node \<and> (0::int) \<le> 7 \<and> 7 < num_node"
  using edge_list_in_range [of "\<lambda>t v. v" "\<lambda>k. 0::int"] by (simp add: edge_list_def num_node_def)

subsection \<open>Sequencing\<close>

lemma andThen_Inr_iff: "andThen m k = Inr r \<longleftrightarrow> (\<exists>a. m = Inr a \<and> k a = Inr r)"
  by (cases m) auto

lemma andThen_Inl_iff: "andThen m k = Inl e \<longleftrightarrow> m = Inl e \<or> (\<exists>a. m = Inr a \<and> k a = Inl e)"
  by (cases m) auto

lemma fold_andThen_Inl: "fold (\<lambda>x acc. andThen acc (F x)) xs (Inl e) = Inl e"
  by (induction xs) auto

lemma forward_gcns_fold:
  "forward_gcns L ms gr feature s =
     fold (\<lambda>m acc. andThen acc (\<lambda>(f, t). call_graph_feature L m gr f t)) ms (Inr (feature, s))"
proof (induction ms arbitrary: feature s)
  case Nil
  show ?case by simp
next
  case (Cons m ms)
  show ?case
  proof (cases "call_graph_feature L m gr feature s")
    case (Inl e)
    then show ?thesis by (simp add: fold_andThen_Inl)
  next
    case (Inr r)
    then show ?thesis using Cons.IH by (cases r) simp
  qed
qed

lemma fold_nth: "fold (\<lambda>i. F (xs ! i)) [0..<length xs] = fold F xs"
proof -
  have "fold F xs = fold F (map ((!) xs) [0..<length xs])" by (simp add: map_nth)
  also have "\<dots> = fold (\<lambda>i. F (xs ! i)) [0..<length xs]" by (simp add: fold_map comp_def)
  finally show ?thesis by simp
qed

subsection \<open>The forward pass\<close>

lemma andThen_Inr_right [simp]: "andThen m Inr = m"
  by (cases m) auto

lemma forward_eq_in_order:
  "forward L self gr feature s = forward_in_order L self gr feature s"
proof -
  have "fold (run_layer L self gr) [0..<length (gcns self)] (Inr (feature, s)) =
        fold (\<lambda>m acc. andThen acc (\<lambda>(f, t). call_graph_feature L m gr f t)) (gcns self) (Inr (feature, s))"
    using fold_nth [of "\<lambda>m acc. andThen acc (\<lambda>(f, t). call_graph_feature L m gr f t)" "gcns self"]
    unfolding run_layer_def by simp
  then have "forward_gcns L (gcns self) gr feature s =
        fold (run_layer L self gr) [0..<length (gcns self)] (Inr (feature, s))"
    by (simp add: forward_gcns_fold)
  then show ?thesis
    unfolding forward_def forward_in_order_def
    by (cases "fold (run_layer L self gr) [0..<length (gcns self)] (Inr (feature, s))") auto
qed

lemma GCN_init_fields:
  assumes "GCN_init L isz nc nl hs s0 = Inr (self, s1)"
  shows "num_class self = nc \<and> num_layers self = nl \<and> hidden_size self = hs \<and>
         (\<exists>t. Linear L hs nc t = Inr (output self, s1))"
  using assms unfolding GCN_init_def
  by (auto simp: andThen_Inr_iff)

lemma forward_Inr_output:
  assumes "forward L self gr feature s = Inr (lg, s')"
  shows "\<exists>x t. call_feature L (output self) x t = Inr (lg, s')"
  using assms unfolding forward_def
  by (auto simp: andThen_Inr_iff)

text \<open>
  Claim C1. For every library, GCN object, graph, feature and framework state,
  \<^verbatim>\<open>GCN.forward(graph, feature)\<close> is exactly: the layers of \<^verbatim>\<open>self.gcns\<close> applied in
  index order to the graph and the running feature, then the linear output layer applied
  to the final feature; a raise of any of these calls is the raise of \<open>forward\<close>. When
  the object was built by \<^verbatim>\<open>__init__\<close> and the library's \<^verbatim>\<open>Linear\<close> layers have as many
  output columns as they were constructed with, the logits returned have \<open>num_class\<close>
  columns.
\<close>

theorem forward_layers_then_output:
  "forward L self gr feature s = forward_in_order L self gr feature s \<and>
   (linear_columns L \<longrightarrow> GCN_init L isz nc nl hs s0 = Inr (self, s1) \<longrightarrow>
      forward L self gr feature s = Inr (lg, s') \<longrightarrow>
      columns lg = Some (nat (num_class self)) \<and> 0 \<le> num_class self)"
proof (intro conjI impI)
  show "forward L self gr feature s = forward_in_order L self gr feature s"
    by (rule forward_eq_in_order)
next
  assume lc: "linear_columns L"
    and init: "GCN_init L isz nc nl hs s0 = Inr (self, s1)"
    and fw: "forward L self gr feature s = Inr (lg, s')"
  from GCN_init_fields [OF init] obtain t where
    nc: "num_class self = nc" and lin: "Linear L hs nc t = Inr (output self, s1)" by blast
  from forward_Inr_output [OF fw] obtain x u where
    call: "call_feature L (output self) x u = Inr (lg, s')" by blast
  from lc lin call have "columns lg = Some (nat nc) \<and> 0 \<le> nc"
    unfolding linear_columns_def by blast
  then show "columns lg = Some (nat (num_class self))" and "0 \<le> num_class self"
    using nc by simp_all
qed

subsection \<open>The constructor\<close>

lemma py_range_2: "py_range 2 = [0, 1]"
  by (simp add: py_range_def upt_rec)

lemma py_range_nonpos: "n \<le> 0 \<Longrightarrow> py_range n = []"
  by (simp add: py_range_def)

lemma py_range_pos: "0 < n \<Longrightarrow> py_range n = 0 # map int [1..<1 + (nat n - 1)]"
  by (simp add: py_range_def upt_conv_Cons)

lemma GCN_default_unfold:
  "GCN_default L 16 2 s0 =
     andThen (GCNConv L 16 16 ''relu'' True s0) (\<lambda>(m0, s1).
     andThen (GCNConv L 16 16 ''relu'' True s1) (\<lambda>(m1, s2).
     andThen (Linear L 16 2 s2) (\<lambda>(out, s3).
     Inr (\<lparr>num_class = 2, num_layers = 2, hidden_size = 16, gcns = [m0, m1], output = out\<rparr>, s3))))"
proof (cases "GCNConv L 16 16 ''relu'' True s0")
  case (Inl e)
  then show ?thesis by (simp add: GCN_default_def GCN_init_def py_range_2)
next
  case (Inr r0)
  obtain m0 s1 where r0: "r0 = (m0, s1)" by (cases r0)
  show ?thesis
  proof (cases "GCNConv L 16 16 ''relu'' True s1")
    case (Inl e)
    with Inr r0 show ?thesis by (simp add: GCN_default_def GCN_init_def py_range_2)
  next
    case r1: (Inr r1)
    obtain m1 s2 where "r1 = (m1, s2)" by (cases r1)
    with Inr r0 r1 show ?thesis by (simp add: GCN_default_def GCN_init_def py_range_2)
  qed
qed

text \<open>
  Claim C4. \<^verbatim>\<open>GCN(16, 2)\<close>, with the default \<^verbatim>\<open>num_layers\<close>, is a two-layer GCN: it makes
  exactly two \<^verbatim>\<open>GCNConv\<close> layers, both from 16 to 16 features, which are the two entries of
  its layer list in this order, and then the \<^verbatim>\<open>Linear\<close> output layer from 16 to 2, which is
  kept apart from the layer list.
\<close>

theorem GCN_default_two_layers:
  "GCN_default L 16 2 s0 =
     andThen (GCNConv L 16 16 ''relu'' True s0) (\<lambda>(m0, s1).
     andThen (GCNConv L 16 16 ''relu'' True s1) (\<lambda>(m1, s2).
     andThen (Linear L 16 2 s2) (\<lambda>(out, s3).
     Inr (\<lparr>num_class = 2, num_layers = 2, hidden_size = 16, gcns = [m0, m1], output = out\<rparr>, s3)))) \<and>
   (GCN_default L 16 2 s0 = Inr (self, s') \<longrightarrow>
      length (gcns self) = 2 \<and> num_layers self = 2 \<and>
      (\<exists>m0 s1 m1 s2.
         GCNConv L 16 16 ''relu'' True s0 = Inr (m0, s1) \<and>
         GCNConv L 16 16 ''relu'' True s1 = Inr (m1, s2) \<and>
         gcns self = [m0, m1] \<and>
         Linear L 16 2 s2 = Inr (output self, s')))"
proof (intro conjI impI)
  show "GCN_default L 16 2 s0 =
     andThen (GCNConv L 16 16 ''relu'' True s0) (\<lambda>(m0, s1).
     andThen (GCNConv L 16 16 ''relu'' True s1) (\<lambda>(m1, s2).
     andThen (Linear L 16 2 s2) (\<lambda>(out, s3).
     Inr (\<lparr>num_class = 2, num_layers = 2, hidden_size = 16, gcns = [m0, m1], output = out\<rparr>, s3))))"
    by (rule GCN_default_unfold)
next
  assume a: "GCN_default L 16 2 s0 = Inr (self, s')"
  then obtain m0 s1 m1 s2 out where
    "GCNConv L 16 16 ''relu'' True s0 = Inr (m0, s1)"
    "GCNConv L 16 16 ''relu'' True s1 = Inr (m1, s2)"
    "Linear L 16 2 s2 = Inr (out, s')"
    "self = \<lparr>num_class = 2, num_layers = 2, hidden_size = 16, gcns = [m0, m1], output = out\<rparr>"
    unfolding GCN_default_unfold by (auto simp: andThen_Inr_iff)
  then show "length (gcns self) = 2" and "num_layers self = 2"
    and "\<exists>m0 s1 m1 s2.
         GCNConv L 16 16 ''relu'' True s0 = Inr (m0, s1) \<and>
         GCNConv L 16 16 ''relu'' True s1 = Inr (m1, s2) \<and>
         gcns self = [m0, m1] \<and>
         Linear L 16 2 s2 = Inr (output self, s')"
    by auto
qed

lemma init_gcns_later:
  "0 < k \<Longrightarrow>
   init_gcns L isz hs (map int [k..<k + n]) acc s =
     append_layers n (GCNConv L hs hs ''relu'' True) acc s"
proof (induction n arbitrary: k acc s)
  case 0
  show ?case by simp
next
  case (Suc n)
  have "[k..<k + Suc n] = k # [Suc k..<Suc k + n]"
    by (simp add: upt_conv_Cons)
  then have up: "map int [k..<k + Suc n] = int k # map int [Suc k..<Suc k + n]"
    by (simp only: list.map)
  from Suc.prems have nz: "int k \<noteq> 0" by simp
  show ?case
  proof (cases "GCNConv L hs hs ''relu'' True s")
    case (Inl e)
    with nz show ?thesis unfolding up by simp
  next
    case (Inr r)
    obtain m s' where "r = (m, s')" by (cases r)
    with Inr nz Suc.IH [of "Suc k" "acc @ [m]" s'] show ?thesis
      unfolding up by simp
  qed
qed

lemma init_gcns_straight:
  "init_gcns L isz hs (py_range nl) [] s0 =
     (if nl \<le> 0 then Inr ([], s0)
      else
        andThen (GCNConv L isz hs ''relu'' True s0) (\<lambda>(m, s').
        append_layers (nat nl - 1) (GCNConv L hs hs ''relu'' True) [m] s'))"
proof (cases "nl \<le> 0")
  case True
  then show ?thesis by (simp add: py_range_nonpos)
next
  case False
  then have pos: "0 < nl" by simp
  show ?thesis
  proof (cases "GCNConv L isz hs ''relu'' True s0")
    case (Inl e)
    with pos show ?thesis by (simp add: py_range_pos del: upt_Suc)
  next
    case (Inr r)
    obtain m s' where "r = (m, s')" by (cases r)
    with Inr pos init_gcns_later [of 1 L isz hs "nat nl - 1" "[m]" s'] show ?thesis
      by (simp add: py_range_pos del: upt_Suc)
  qed
qed

lemma forward_gcns_composed:
  "forward_gcns L ms gr feature s =
     foldr (\<lambda>m rest. kleisli (conv_op L gr m) rest) ms Inr (feature, s)"
proof (induction ms arbitrary: feature s)
  case Nil
  show ?case by simp
next
  case (Cons m ms)
  show ?case
  proof (cases "call_graph_feature L m gr feature s")
    case (Inl e)
    then show ?thesis by (simp add: kleisli_def conv_op_def)
  next
    case (Inr r)
    obtain f t where "r = (f, t)" by (cases r)
    with Inr Cons.IH [of f t] show ?thesis by (simp add: kleisli_def conv_op_def)
  qed
qed

text \<open>
  Claim C5. The notebook adds no algorithm to the library's operators. The loop with its
  branch in \<^verbatim>\<open>GCN.__init__\<close> builds what the construction without the branch builds:
  \<^verbatim>\<open>GCNConv(input_size, hidden_size, activation="relu", norm=True)\<close> first,
  \<^verbatim>\<open>GCNConv(hidden_size, hidden_size, activation="relu", norm=True)\<close> for every later
  index, then the linear layer. \<^verbatim>\<open>GCN.forward\<close> is the composition of the layers'
  operators, in the order of the list, followed by the operator of the linear layer.
\<close>

theorem GCN_is_library_composition:
  "GCN_init L isz nc nl hs s0 = GCN_init_straight L isz nc nl hs s0 \<and>
   forward L self gr feature s = forward_composed L self gr (feature, s)"
proof
  show "GCN_init L isz nc nl hs s0 = GCN_init_straight L isz nc nl hs s0"
    unfolding GCN_init_def GCN_init_straight_def init_gcns_straight ..
next
  have "forward L self gr feature s =
        andThen (forward_gcns L (gcns self) gr feature s) (linear_op L (output self))"
    by (simp add: forward_def linear_op_def)
  then show "forward L self gr feature s = forward_composed L self gr (feature, s)"
    by (simp add: forward_composed_def kleisli_def forward_gcns_composed)
qed

subsection \<open>The shape-only library at work\<close>

lemma shape_lib_fields:
  "GCNConv shape_lib = (\<lambda>i out act nrm s.
        if i \<le> 0 \<or> out \<le> 0 then Inl ValueError else Inr (Conv i out s, Suc s))"
  "Linear shape_lib = (\<lambda>i out s.
        if i \<le> 0 \<or> out \<le> 0 then Inl ValueError else Inr (Lin i out s, Suc s))"
  "call_graph_feature shape_lib = shape_conv"
  "call_feature shape_lib = shape_linear"
  "graph_tensor shape_lib = (\<lambda>gr s. Inr (gr, s))"
  "to_tensor shape_lib = (\<lambda>ys s. Inr (\<lparr>nd_dtype = Int64, nd_shape = [length ys], nd_data = ys\<rparr>, s))"
  "CrossEntropyLoss shape_lib = (\<lambda>s. Inr (Crit s, Suc s))"
  "parameters shape_lib = (\<lambda>ls out s. Inr (Params s, Suc s))"
  "Adam shape_lib = (\<lambda>lr ps s. Inr (Opt s, Suc s))"
  "train shape_lib = (\<lambda>ls out s. Inr s)"
  "call_criterion shape_lib = shape_criterion"
  "backward shape_lib = (\<lambda>ls s. Inr s)"
  "step shape_lib = (\<lambda>opt s. Inr (Suc s))"
  "clear_grad shape_lib = (\<lambda>opt s. Inr s)"
  "numpy shape_lib = (\<lambda>a s. Inr (a, s))"
  by (simp_all add: shape_lib_def)

lemma shape_lib_linear_columns: "linear_columns shape_lib"
  unfolding linear_columns_def
  by (auto simp: shape_lib_fields shape_linear_def columns_def zeros_def
           split: if_splits list.splits)

lemma shape_lib_GCN_default: "GCN_default shape_lib 16 2 0 = Inr (zero_gcn, 3)"
  by (simp add: GCN_default_unfold shape_lib_fields zero_gcn_def numeral_3_eq_3)

lemma shape_lib_GCN_init: "GCN_init shape_lib 16 2 2 16 0 = Inr (zero_gcn, 3)"
  using shape_lib_GCN_default by (simp add: GCN_default_def)

lemma shape_lib_forward:
  "forward shape_lib zero_gcn zero_graph (zeros [10, 16]) s = Inr (zeros [10, 2], s)"
  by (simp add: forward_def zero_gcn_def shape_lib_fields shape_conv_def shape_linear_def
      zeros_def zero_graph_def Graph_def num_node_def)

text \<open>
  The network \<^verbatim>\<open>GCN(16, 2)\<close> on the shape-only library: a feature of shape \<open>(10, 16)\<close>
  gives logits of shape \<open>(10, 2)\<close>.
\<close>

theorem forward_layers_then_output_witness:
  "linear_columns shape_lib \<and>
   GCN_init shape_lib 16 2 2 16 0 = Inr (zero_gcn, 3) \<and>
   forward shape_lib zero_gcn zero_graph (zeros [10, 16]) 6 = Inr (zeros [10, 2], 6) \<and>
   forward_in_order shape_lib zero_gcn zero_graph (zeros [10, 16]) 6 = Inr (zeros [10, 2], 6) \<and>
   columns (zeros [10, 2]) = Some (nat (num_class zero_gcn))"
  using forward_layers_then_output [of shape_lib zero_gcn zero_graph "zeros [10, 16]" 6 16 2 2 16 0 3 "zeros [10, 2]" 6]
    shape_lib_linear_columns shape_lib_GCN_init shape_lib_forward [of 6]
  by simp

text \<open>
  On the shape-only library the construction returns, and the layer list has the two
  objects the two \<^verbatim>\<open>GCNConv\<close> calls created.
\<close>

theorem GCN_default_two_layers_witness:
  "GCN_default shape_lib 16 2 0 = Inr (zero_gcn, 3) \<and>
   length (gcns zero_gcn) = 2 \<and> num_layers zero_gcn = 2 \<and>
   GCNConv shape_lib 16 16 ''relu'' True 0 = Inr (Conv 16 16 0, 1) \<and>
   GCNConv shape_lib 16 16 ''relu'' True 1 = Inr (Conv 16 16 1, 2) \<and>
   gcns zero_gcn = [Conv 16 16 0, Conv 16 16 1] \<and>
   Linear shape_lib 16 2 2 = Inr (output zero_gcn, 3)"
  using GCN_default_two_layers [of shape_lib 0 zero_gcn 3] shape_lib_GCN_default
  by (simp add: shape_lib_fields zero_gcn_def)

lemma zero_build_graph:
  "build_graph (\<lambda>t v. v) (\<lambda>k. 0) = (Inr (zero_graph, (\<lambda>k. 0)) :: unit exn + _)"
  by (simp add: build_graph_def randn_def astype_def zero_graph_def zeros_def Let_def
      num_node_def edge_list_def map_replicate_const)

lemma shape_lib_setup: "setup_cell shape_lib zero_graph 0 = Inr (zero_notebook, 6)"
  by (simp add: setup_cell_def shape_lib_fields shape_lib_GCN_default zero_notebook_def
      zero_gcn_def y_list_def numeral_3_eq_3 eval_nat_numeral)

subsection \<open>The training loop\<close>

lemma andThen_case: "andThen m k = (case m of Inl e \<Rightarrow> Inl e | Inr r \<Rightarrow> k r)"
  by (cases m) auto

lemma traced_fields:
  "call_graph_feature (traced L) m gr x = logged (Ev_call_graph_feature m) (call_graph_feature L m gr x)"
  "call_feature (traced L) m x = logged (Ev_call_feature m) (call_feature L m x)"
  "call_criterion (traced L) c lg ys = logged (Ev_call_criterion c) (call_criterion L c lg ys)"
  "backward (traced L) ls = logged_state Ev_backward (backward L ls)"
  "step (traced L) opt = logged_state (Ev_step opt) (step L opt)"
  "clear_grad (traced L) opt = logged_state (Ev_clear_grad opt) (clear_grad L opt)"
  "numpy (traced L) a = logged Ev_numpy (numpy L a)"
  by (simp_all add: traced_def)

lemma forward_gcns_traced:
  "forward_gcns (traced L) ms gr feature (s, tr) =
     andThen (forward_gcns L ms gr feature s)
       (\<lambda>(f, s'). Inr (f, (s', tr @ map Ev_call_graph_feature ms)))"
proof (induction ms arbitrary: feature s tr)
  case Nil
  show ?case by simp
next
  case (Cons m ms)
  show ?case
  proof (cases "call_graph_feature L m gr feature s")
    case (Inl e)
    then show ?thesis by (simp add: traced_fields logged_def)
  next
    case (Inr r)
    obtain f t where "r = (f, t)" by (cases r)
    with Inr Cons.IH [of f t "tr @ [Ev_call_graph_feature m]"] show ?thesis
      by (simp add: traced_fields logged_def)
  qed
qed

lemma forward_traced:
  "forward (traced L) self gr feature (s, tr) =
     andThen (forward L self gr feature s)
       (\<lambda>(lg, s'). Inr (lg, (s', tr @ map Ev_call_graph_feature (gcns self) @
                                   [Ev_call_feature (output self)])))"
  unfolding forward_def forward_gcns_traced
  by (simp add: andThen_case traced_fields logged_def split: sum.splits prod.splits)

lemma epoch_body_traced:
  "epoch_body (traced L) nb ep (s, tr) =
     andThen (epoch_body L nb ep s) (\<lambda>(nb', s'). Inr (nb', (s', tr @ epoch_events nb)))"
  unfolding epoch_body_def forward_traced
  by (simp add: andThen_case traced_fields logged_def logged_state_def epoch_events_def
      split: sum.splits prod.splits)

lemma epoch_body_Inr:
  fixes L :: "('a, 'h, 's, 'x) lib"
  assumes "epoch_body L nb ep s0 = Inr (nb', s')"
  shows "\<exists>nfeat lg s1 ls s2 s3 s4 s5 arr v.
           node_feat (g nb) ''nfeat'' = Some nfeat \<and>
           forward L (gcn nb) (g nb) nfeat s0 = Inr (lg, s1) \<and>
           call_criterion L (criterion nb) lg (y nb) s1 = Inr (ls, s2) \<and>
           backward L ls s2 = Inr s3 \<and>
           step L (optim nb) s3 = Inr s4 \<and>
           clear_grad L (optim nb) s4 = Inr s5 \<and>
           numpy L ls s5 = Inr (arr, s') \<and>
           (getitem0 arr :: 'x exn + 'a ndarray) = Inr v \<and>
           nb' = nb\<lparr>logits := Some lg, loss := Some ls, epoch := Some ep,
                    stdout := stdout nb @ [EpochLine ep v]\<rparr>"
  using assms unfolding epoch_body_def
  by (auto simp: andThen_Inr_iff dict_getitem_def split: option.splits)

lemma epoch_body_frame:
  assumes "epoch_body L nb ep s = Inr (nb', s')"
  shows "g nb' = g nb \<and> y nb' = y nb \<and> gcn nb' = gcn nb \<and>
         criterion nb' = criterion nb \<and> optim nb' = optim nb"
  using epoch_body_Inr [OF assms] by auto

lemma run_epochs_frame:
  "run_epochs L nb eps s = Inr (nb', s') \<Longrightarrow>
     g nb' = g nb \<and> y nb' = y nb \<and> gcn nb' = gcn nb \<and>
     criterion nb' = criterion nb \<and> optim nb' = optim nb"
proof (induction eps arbitrary: nb s)
  case Nil
  then show ?case by simp
next
  case (Cons ep eps)
  from Cons.prems obtain nb1 s1 where
    b: "epoch_body L nb ep s = Inr (nb1, s1)" and r: "run_epochs L nb1 eps s1 = Inr (nb', s')"
    by (auto simp: andThen_Inr_iff)
  from Cons.IH [OF r] epoch_body_frame [OF b] show ?case by simp
qed

lemma epoch_events_frame:
  "epoch_body L nb ep s = Inr (nb', s') \<Longrightarrow> epoch_events nb' = epoch_events nb"
  using epoch_body_frame [of L nb ep s nb' s'] by (simp add: epoch_events_def)

lemma run_epochs_traced:
  "run_epochs (traced L) nb eps (s, tr) =
     andThen (run_epochs L nb eps s)
       (\<lambda>(nb', s'). Inr (nb', (s', tr @ concat (replicate (length eps) (epoch_events nb)))))"
proof (induction eps arbitrary: nb s tr)
  case Nil
  show ?case by simp
next
  case (Cons ep eps)
  show ?case
  proof (cases "epoch_body L nb ep s")
    case (Inl e)
    then show ?thesis by (simp add: epoch_body_traced)
  next
    case (Inr r)
    obtain nb1 s1 where r: "r = (nb1, s1)" by (cases r)
    with Inr have ev: "epoch_events nb1 = epoch_events nb" by (simp add: epoch_events_frame)
    from Inr r Cons.IH [of nb1 s1 "tr @ epoch_events nb"] ev show ?thesis
      by (simp add: epoch_body_traced andThen_case split: sum.splits)
  qed
qed

lemma run_epochs_stdout:
  "run_epochs L nb eps s = Inr (nb', s') \<Longrightarrow>
     \<exists>new. stdout nb' = stdout nb @ new \<and> map line_epoch new = map Some eps"
proof (induction eps arbitrary: nb s)
  case Nil
  then show ?case by simp
next
  case (Cons ep eps)
  from Cons.prems obtain nb1 s1 where
    b: "epoch_body L nb ep s = Inr (nb1, s1)" and r: "run_epochs L nb1 eps s1 = Inr (nb', s')"
    by (auto simp: andThen_Inr_iff)
  from epoch_body_Inr [OF b] obtain v where "stdout nb1 = stdout nb @ [EpochLine ep v]"
    by auto
  with Cons.IH [OF r] show ?case by auto
qed

lemma length_py_range: "length (py_range n) = nat n"
  by (simp add: py_range_def)

text \<open>
  Claim C2. The training loop runs 30 iterations, for \<open>epoch = 0, \<dots>, 29\<close>. Run on a
  library that records its calls, the loop behaves as on the library itself and adds to
  the record, 30 times over, the events of one iteration in this order: the forward pass
  of the model (its layers, then its output layer), the cross-entropy loss, the backward
  pass, the optimizer step, the gradient clear, and the read of the loss for the line it
  prints. No other library operation is recorded. A loop that returns has printed 30
  lines, one per epoch, in order. Within an iteration that returns, the forward pass is
  run on the graph and its node feature \<open>nfeat\<close>, the loss is computed from the logits
  and the label tensor, the backward pass is run on that loss, and the framework's state
  is handed from each call to the next.
\<close>

theorem training_loop_calls:
  "training_loop (traced L) nb (s, tr) =
     andThen (training_loop L nb s)
       (\<lambda>(nb', s'). Inr (nb', (s', tr @ concat (replicate 30 (epoch_events nb))))) \<and>
   (training_loop (traced L) nb (s, tr) = Inr (nb', (s', tr')) \<longrightarrow>
      tr' = tr @ concat (replicate 30 (epoch_events nb)) \<and>
      (\<exists>new. stdout nb' = stdout nb @ new \<and> length new = 30 \<and>
             map line_epoch new = map Some (py_range 30))) \<and>
   (epoch_body L nb ep s = Inr (nb1, s6) \<longrightarrow>
      (\<exists>nfeat lg s1 ls s2 s3 s4 s5 arr.
         node_feat (g nb) ''nfeat'' = Some nfeat \<and>
         forward L (gcn nb) (g nb) nfeat s = Inr (lg, s1) \<and>
         call_criterion L (criterion nb) lg (y nb) s1 = Inr (ls, s2) \<and>
         backward L ls s2 = Inr s3 \<and>
         step L (optim nb) s3 = Inr s4 \<and>
         clear_grad L (optim nb) s4 = Inr s5 \<and>
         numpy L ls s5 = Inr (arr, s6)))"
proof (intro conjI impI)
  show eq: "training_loop (traced L) nb (s, tr) =
     andThen (training_loop L nb s)
       (\<lambda>(nb', s'). Inr (nb', (s', tr @ concat (replicate 30 (epoch_events nb)))))"
    unfolding training_loop_def run_epochs_traced by (simp add: length_py_range)
  assume ok: "training_loop (traced L) nb (s, tr) = Inr (nb', (s', tr'))"
  from ok have "andThen (training_loop L nb s)
       (\<lambda>(nb', s'). Inr (nb', (s', tr @ concat (replicate 30 (epoch_events nb))))) =
         Inr (nb', (s', tr'))"
    unfolding eq .
  then have run: "training_loop L nb s = Inr (nb', s')"
    and tr': "tr' = tr @ concat (replicate 30 (epoch_events nb))"
    by (auto simp: andThen_Inr_iff)
  show "tr' = tr @ concat (replicate 30 (epoch_events nb))" by (rule tr')
  from run run_epochs_stdout [of L nb "py_range 30" s nb' s'] obtain new where
    n: "stdout nb' = stdout nb @ new" "map line_epoch new = map Some (py_range 30)"
    unfolding training_loop_def by blast
  from n(2) have "length new = 30"
    using length_map [of line_epoch new] by (simp add: length_py_range)
  with n show "\<exists>new. stdout nb' = stdout nb @ new \<and> length new = 30 \<and>
             map line_epoch new = map Some (py_range 30)" by blast
next
  assume "epoch_body L nb ep s = Inr (nb1, s6)"
  from epoch_body_Inr [OF this]
  show "\<exists>nfeat lg s1 ls s2 s3 s4 s5 arr.
         node_feat (g nb) ''nfeat'' = Some nfeat \<and>
         forward L (gcn nb) (g nb) nfeat s = Inr (lg, s1) \<and>
         call_criterion L (criterion nb) lg (y nb) s1 = Inr (ls, s2) \<and>
         backward L ls s2 = Inr s3 \<and>
         step L (optim nb) s3 = Inr s4 \<and>
         clear_grad L (optim nb) s4 = Inr s5 \<and>
         numpy L ls s5 = Inr (arr, s6)"
    by blast
qed

subsection \<open>The shape-only library through the loop\<close>

lemma run_epochs_append:
  "run_epochs L nb (eps @ [ep]) s =
     andThen (run_epochs L nb eps s) (\<lambda>(nb1, s1). epoch_body L nb1 ep s1)"
proof (induction eps arbitrary: nb s)
  case Nil
  show ?case by (simp add: andThen_case split: sum.splits)
next
  case (Cons a eps)
  show ?case
  proof (cases "epoch_body L nb a s")
    case (Inl e)
    then show ?thesis by simp
  next
    case (Inr r)
    obtain nb1 s1 where "r = (nb1, s1)" by (cases r)
    with Inr Cons.IH [of nb1 s1] show ?thesis by simp
  qed
qed

lemma getitem0_zeros1: "getitem0 (zeros [1]) = Inr (zeros [])"
  by (simp add: getitem0_def zeros_def)

lemma zero_graph_nfeat:
  "dict_getitem (node_feat zero_graph) ''nfeat'' = Inr (zeros [10, 16])"
  by (simp add: zero_graph_def Graph_def dict_getitem_def)

lemma shape_criterion_zero:
  "shape_criterion c (zeros [10, 2]) \<lparr>nd_dtype = Int64, nd_shape = [10], nd_data = y_list\<rparr> s =
     Inr (zeros [1], s)"
  by (simp add: shape_criterion_def zeros_def y_list_def)

lemma shape_lib_epoch:
  assumes "g nb = zero_graph" "gcn nb = zero_gcn"
    and "y nb = \<lparr>nd_dtype = Int64, nd_shape = [10], nd_data = y_list\<rparr>"
  shows "epoch_body shape_lib nb ep s =
           Inr (nb\<lparr>logits := Some (zeros [10, 2]), loss := Some (zeros [1]), epoch := Some ep,
                   stdout := stdout nb @ [EpochLine ep (zeros [])]\<rparr>, Suc s)"
  unfolding epoch_body_def assms zero_graph_nfeat shape_lib_fields
  by (simp add: shape_lib_forward shape_criterion_zero getitem0_zeros1 del: One_nat_def)

lemma shape_lib_run_epochs:
  assumes "g nb = zero_graph" "gcn nb = zero_gcn"
    and "y nb = \<lparr>nd_dtype = Int64, nd_shape = [10], nd_data = y_list\<rparr>"
  shows "\<exists>nb'. run_epochs shape_lib nb eps s = Inr (nb', s + length eps)"
  using assms
proof (induction eps arbitrary: nb s)
  case Nil
  show ?case by simp
next
  case (Cons ep eps)
  let ?nb1 = "nb\<lparr>logits := Some (zeros [10, 2]), loss := Some (zeros [1]), epoch := Some ep,
                   stdout := stdout nb @ [EpochLine ep (zeros [])]\<rparr>"
  have "\<exists>nb'. run_epochs shape_lib ?nb1 eps (Suc s) = Inr (nb', Suc s + length eps)"
    by (rule Cons.IH) (simp_all add: Cons.prems)
  then show ?case
    by (simp add: shape_lib_epoch [OF Cons.prems])
qed

lemma shape_lib_training_loop:
  "\<exists>nb'. training_loop shape_lib zero_notebook 6 = Inr (nb', 36)"
proof -
  have "\<exists>nb'. run_epochs shape_lib zero_notebook (py_range 30) 6 =
          Inr (nb', 6 + length (py_range 30))"
    by (rule shape_lib_run_epochs) (simp_all add: zero_notebook_def)
  then show ?thesis
    unfolding training_loop_def length_py_range by simp
qed

lemma zero_epoch_events:
  "epoch_events zero_notebook =
           [Ev_call_graph_feature (Conv 16 16 0), Ev_call_graph_feature (Conv 16 16 1),
            Ev_call_feature (Lin 16 2 2), Ev_call_criterion (Crit 3), Ev_backward,
            Ev_step (Opt 5), Ev_clear_grad (Opt 5), Ev_numpy]"
  by (simp add: epoch_events_def zero_notebook_def zero_gcn_def)

text \<open>
  On the shape-only library the loop returns; its record is 30 times the eight events of
  one iteration.
\<close>

theorem training_loop_calls_witness:
  "\<exists>nb'. training_loop (traced shape_lib) zero_notebook (6, []) =
           Inr (nb', (36, concat (replicate 30 (epoch_events zero_notebook)))) \<and>
         epoch_events zero_notebook =
           [Ev_call_graph_feature (Conv 16 16 0), Ev_call_graph_feature (Conv 16 16 1),
            Ev_call_feature (Lin 16 2 2), Ev_call_criterion (Crit 3), Ev_backward,
            Ev_step (Opt 5), Ev_clear_grad (Opt 5), Ev_numpy]"
proof -
  from shape_lib_training_loop obtain nb' where
    run: "training_loop shape_lib zero_notebook 6 = Inr (nb', 36)" ..
  have eq: "training_loop (traced shape_lib) zero_notebook (6, []) =
     andThen (training_loop shape_lib zero_notebook 6)
       (\<lambda>(nb', s'). Inr (nb', (s', [] @ concat (replicate 30 (epoch_events zero_notebook)))))"
    using training_loop_calls [of shape_lib zero_notebook 6 "[]"] by (rule conjunct1)
  have "training_loop (traced shape_lib) zero_notebook (6, []) =
           Inr (nb', (36, concat (replicate 30 (epoch_events zero_notebook))))"
    unfolding eq run by simp
  with zero_epoch_events show ?thesis by blast
qed

subsection \<open>Shapes through set-up and training\<close>

lemma shape_contract_tensor:
  assumes "shape_contract L" "graph_tensor L gr s = Inr (gr', s')"
  shows "num_nodes gr' = num_nodes gr" "edges gr' = edges gr"
    "map_option nd_shape (node_feat gr' k) = map_option nd_shape (node_feat gr k)"
    "map_option nd_shape (edge_feat gr' k) = map_option nd_shape (edge_feat gr k)"
proof -
  from assms(1) have "\<forall>gr s gr' s'. graph_tensor L gr s = Inr (gr', s') \<longrightarrow>
        num_nodes gr' = num_nodes gr \<and> edges gr' = edges gr \<and>
        (\<forall>k. map_option nd_shape (node_feat gr' k) = map_option nd_shape (node_feat gr k)) \<and>
        (\<forall>k. map_option nd_shape (edge_feat gr' k) = map_option nd_shape (edge_feat gr k))"
    unfolding shape_contract_def by (rule conjunct1)
  then have a: "num_nodes gr' = num_nodes gr \<and> edges gr' = edges gr \<and>
        (\<forall>k. map_option nd_shape (node_feat gr' k) = map_option nd_shape (node_feat gr k)) \<and>
        (\<forall>k. map_option nd_shape (edge_feat gr' k) = map_option nd_shape (edge_feat gr k))"
    using assms(2) by (elim allE impE) 
  then show "num_nodes gr' = num_nodes gr" "edges gr' = edges gr"
    "map_option nd_shape (node_feat gr' k) = map_option nd_shape (node_feat gr k)"
    "map_option nd_shape (edge_feat gr' k) = map_option nd_shape (edge_feat gr k)"
    by simp_all
qed

lemma shape_contract_conv:
  assumes "shape_contract L" "GCNConv L i out act nrm s = Inr (h, s')"
    "call_graph_feature L h gr x t = Inr (z, t')" "nd_shape x = [nat (num_nodes gr), c]"
  shows "nd_shape z = [nat (num_nodes gr), nat out]"
proof -
  from assms(1) have "\<forall>i out act nrm s h s' gr x t z t' c.
        GCNConv L i out act nrm s = Inr (h, s') \<longrightarrow>
        call_graph_feature L h gr x t = Inr (z, t') \<longrightarrow>
        nd_shape x = [nat (num_nodes gr), c] \<longrightarrow>
        nd_shape z = [nat (num_nodes gr), nat out]"
    unfolding shape_contract_def by (elim conjE)
  with assms(2-4) show ?thesis by metis
qed

lemma shape_contract_linear:
  assumes "shape_contract L" "Linear L i out s = Inr (h, s')"
    "call_feature L h x t = Inr (z, t')"
  shows "nd_shape z = butlast (nd_shape x) @ [nat out]"
proof -
  from assms(1) have "\<forall>i out s h s' x t z t'.
        Linear L i out s = Inr (h, s') \<longrightarrow> call_feature L h x t = Inr (z, t') \<longrightarrow>
        nd_shape z = butlast (nd_shape x) @ [nat out]"
    unfolding shape_contract_def by (elim conjE)
  with assms(2-3) show ?thesis by metis
qed

lemma shape_contract_to_tensor:
  assumes "shape_contract L" "to_tensor L ys s = Inr (z, s')"
  shows "nd_shape z = [length ys]" "nd_data z = ys"
proof -
  from assms(1) have "\<forall>ys s z s'. to_tensor L ys s = Inr (z, s') \<longrightarrow>
        nd_shape z = [length ys] \<and> nd_data z = ys"
    unfolding shape_contract_def by (elim conjE)
  with assms(2) show "nd_shape z = [length ys]" "nd_data z = ys" by metis+
qed

lemma GCN_default_Inr:
  assumes "GCN_default L 16 2 s0 = Inr (self, s')"
  shows "\<exists>m0 s1 m1 s2.
           GCNConv L 16 16 ''relu'' True s0 = Inr (m0, s1) \<and>
           GCNConv L 16 16 ''relu'' True s1 = Inr (m1, s2) \<and>
           Linear L 16 2 s2 = Inr (output self, s') \<and>
           gcns self = [m0, m1] \<and> num_class self = 2 \<and> num_layers self = 2 \<and>
           hidden_size self = 16"
  using assms unfolding GCN_default_unfold
  by (auto simp: andThen_Inr_iff)

lemma setup_cell_Inr:
  assumes "setup_cell L g0 s0 = Inr (nb, s6)"
  shows "\<exists>s1 s2 s3 s4 ps s5.
           graph_tensor L g0 s0 = Inr (g nb, s1) \<and>
           to_tensor L y_list s1 = Inr (y nb, s2) \<and>
           GCN_default L 16 2 s2 = Inr (gcn nb, s3) \<and>
           CrossEntropyLoss L s3 = Inr (criterion nb, s4) \<and>
           parameters L (gcns (gcn nb)) (output (gcn nb)) s4 = Inr (ps, s5) \<and>
           Adam L 0.01 ps s5 = Inr (optim nb, s6) \<and>
           logits nb = None \<and> loss nb = None \<and> epoch nb = None \<and>
           stdout nb = print_sizes g0"
  using assms unfolding setup_cell_def
  by (auto simp: andThen_Inr_iff)

lemma build_graph_Inr:
  fixes gen :: "'a rng"
  assumes "build_graph cast gen = (Inr (g0, gen') :: 'x exn + ('a graph \<times> 'a rng))"
  shows "num_nodes g0 = 10 \<and> edges g0 = edge_list \<and>
         (\<exists>a. node_feat g0 ''nfeat'' = Some a \<and> nd_shape a = [10, 16]) \<and>
         (\<exists>b. edge_feat g0 ''efeat'' = Some b \<and> nd_shape b = [14, 1])"
  using assms
  by (auto simp: build_graph_def randn_def astype_def Graph_def num_node_def edge_list_def Let_def)

lemma forward_two_layers_shape:
  assumes sc: "shape_contract L"
    and init: "GCN_default L 16 2 t0 = Inr (self, t1)"
    and n: "num_nodes gr = 10"
    and x: "nd_shape x = [10, 16]"
    and fw: "forward L self gr x s = Inr (lg, s')"
  shows "nd_shape lg = [10, 2]"
proof -
  from GCN_default_Inr [OF init] obtain m0 u1 m1 u2 where
    m0: "GCNConv L 16 16 ''relu'' True t0 = Inr (m0, u1)" and
    m1: "GCNConv L 16 16 ''relu'' True u1 = Inr (m1, u2)" and
    out: "Linear L 16 2 u2 = Inr (output self, t1)" and
    ls: "gcns self = [m0, m1]"
    by blast
  from fw ls obtain z0 s1 z1 s2 where
    k0: "call_graph_feature L m0 gr x s = Inr (z0, s1)" and
    k1: "call_graph_feature L m1 gr z0 s1 = Inr (z1, s2)" and
    k2: "call_feature L (output self) z1 s2 = Inr (lg, s')"
    unfolding forward_def by (auto simp: andThen_Inr_iff)
  from shape_contract_conv [OF sc m0 k0, of 16] n x have z0: "nd_shape z0 = [10, 16]" by simp
  from shape_contract_conv [OF sc m1 k1, of 16] n z0 have z1: "nd_shape z1 = [10, 16]" by simp
  from shape_contract_linear [OF sc out k2] z1 show ?thesis by simp
qed

lemma setup_shapes:
  fixes gen :: "'a rng" and L :: "('a, 'h, 's, 'x) lib"
  assumes sc: "shape_contract L"
    and bg: "build_graph cast gen = (Inr (g0, gen') :: 'x exn + ('a graph \<times> 'a rng))"
    and su: "setup_cell L g0 s0 = Inr (nb, s1)"
  shows "num_nodes (g nb) = 10 \<and> edges (g nb) = edge_list \<and>
         (\<exists>a. node_feat (g nb) ''nfeat'' = Some a \<and> nd_shape a = [10, 16]) \<and>
         (\<exists>b. edge_feat (g nb) ''efeat'' = Some b \<and> nd_shape b = [14, 1]) \<and>
         nd_shape (y nb) = [10] \<and> nd_data (y nb) = y_list \<and>
         (\<exists>t0 t1. GCN_default L 16 2 t0 = Inr (gcn nb, t1))"
proof -
  from setup_cell_Inr [OF su] obtain t1 t2 t3 where
    gt: "graph_tensor L g0 s0 = Inr (g nb, t1)" and
    tt: "to_tensor L y_list t1 = Inr (y nb, t2)" and
    gd: "GCN_default L 16 2 t2 = Inr (gcn nb, t3)"
    by blast
  note keep = shape_contract_tensor [OF sc gt]
  note yy = shape_contract_to_tensor [OF sc tt]
  have len: "length y_list = 10" by (simp add: y_list_def)
  from build_graph_Inr [OF bg] obtain a b where
    g0: "num_nodes g0 = 10" "edges g0 = edge_list"
      "node_feat g0 ''nfeat'' = Some a" "nd_shape a = [10, 16]"
      "edge_feat g0 ''efeat'' = Some b" "nd_shape b = [14, 1]"
    by blast
  from keep(3) [of "''nfeat''"] g0(3,4)
  have nf: "\<exists>a. node_feat (g nb) ''nfeat'' = Some a \<and> nd_shape a = [10, 16]"
    by (cases "node_feat (g nb) ''nfeat''") auto
  from keep(4) [of "''efeat''"] g0(5,6)
  have ef: "\<exists>b. edge_feat (g nb) ''efeat'' = Some b \<and> nd_shape b = [14, 1]"
    by (cases "edge_feat (g nb) ''efeat''") auto
  from keep(1,2) g0(1,2) yy len nf ef gd show ?thesis
    by auto
qed

lemma epoch_logits_shape:
  assumes sc: "shape_contract L"
    and gd: "GCN_default L 16 2 t0 = Inr (gcn nb, t1)"
    and n: "num_nodes (g nb) = 10"
    and nf: "node_feat (g nb) ''nfeat'' = Some a" "nd_shape a = [10, 16]"
    and ep: "epoch_body L nb ep s = Inr (nb', s')"
  shows "\<exists>lg ls t t'. logits nb' = Some lg \<and> nd_shape lg = [10, 2] \<and> loss nb' = Some ls \<and>
           call_criterion L (criterion nb) lg (y nb) t = Inr (ls, t')"
proof -
  from epoch_body_Inr [OF ep] nf(1) obtain lg u1 ls u2 where
    fw: "forward L (gcn nb) (g nb) a s = Inr (lg, u1)" and
    cr: "call_criterion L (criterion nb) lg (y nb) u1 = Inr (ls, u2)" and
    lgs: "logits nb' = Some lg" "loss nb' = Some ls"
    by auto
  from forward_two_layers_shape [OF sc gd n nf(2) fw] have "nd_shape lg = [10, 2]" .
  with cr lgs show ?thesis by blast
qed

lemma shape_lib_contract: "shape_contract shape_lib"
  unfolding shape_contract_def
proof (intro conjI allI impI)
  fix i out act nrm s h s' gr x t z t' c
  assume "GCNConv shape_lib i out act nrm s = Inr (h, s')"
    and "call_graph_feature shape_lib h gr x t = Inr (z, t')"
    and "nd_shape x = [nat (num_nodes gr), c]"
  then show "nd_shape z = [nat (num_nodes gr), nat out]"
    by (auto simp: shape_lib_fields shape_conv_def zeros_def split: if_splits)
next
  fix i out s h s' x t z t'
  assume "Linear shape_lib i out s = Inr (h, s')"
    and "call_feature shape_lib h x t = Inr (z, t')"
  then show "nd_shape z = butlast (nd_shape x) @ [nat out]"
    by (auto simp: shape_lib_fields shape_linear_def zeros_def split: if_splits list.splits)
qed (auto simp: shape_lib_fields)

text \<open>
  Claim C6. The loop classifies the nodes of the whole graph. Let the library keep the
  shapes it documents, let \<^verbatim>\<open>build_graph\<close> and the set-up cell have returned, and let any
  non-empty sequence of epochs have run. Then the graph still has 10 nodes and a node
  feature of shape \<open>(10, 16)\<close>, the network is the \<^verbatim>\<open>GCN(16, 2)\<close> of the set-up, the
  logits of the last epoch run have shape \<open>(10, 2)\<close>, one row per node and one column
  per class, and the loss of that epoch is the criterion applied to these logits and the
  label tensor, which holds the 10 entries of \<open>y_list\<close>. Every epoch of the loop is the
  last one of such a sequence.
\<close>

theorem training_shapes:
  fixes gen :: "'a rng" and L :: "('a, 'h, 's, 'x) lib"
  assumes sc: "shape_contract L"
    and bg: "build_graph cast gen = (Inr (g0, gen') :: 'x exn + ('a graph \<times> 'a rng))"
    and su: "setup_cell L g0 s0 = Inr (nb, s1)"
    and ne: "eps \<noteq> []"
    and run: "run_epochs L nb eps s = Inr (nb', s')"
  shows "num_nodes (g nb') = 10 \<and>
         (\<exists>nfeat lg ls t t'.
            node_feat (g nb') ''nfeat'' = Some nfeat \<and> nd_shape nfeat = [10, 16] \<and>
            logits nb' = Some lg \<and> nd_shape lg = [10, 2] \<and>
            loss nb' = Some ls \<and>
            call_criterion L (criterion nb') lg (y nb') t = Inr (ls, t')) \<and>
         num_class (gcn nb') = 2 \<and>
         (\<exists>u0 u1. GCN_default L 16 2 u0 = Inr (gcn nb', u1)) \<and>
         nd_shape (y nb') = [10] \<and> nd_data (y nb') = y_list"
proof -
  from ne have "eps = butlast eps @ [last eps]" by simp
  with run have "run_epochs L nb (butlast eps @ [last eps]) s = Inr (nb', s')" by simp
  then obtain nb1 t1 where
    before: "run_epochs L nb (butlast eps) s = Inr (nb1, t1)" and
    final: "epoch_body L nb1 (last eps) t1 = Inr (nb', s')"
    unfolding run_epochs_append by (auto simp: andThen_Inr_iff)
  note f1 = run_epochs_frame [OF before]
  note f2 = epoch_body_frame [OF final]
  from setup_shapes [OF sc bg su] obtain a u0 u1 where
    n: "num_nodes (g nb) = 10" and
    nf: "node_feat (g nb) ''nfeat'' = Some a" "nd_shape a = [10, 16]" and
    yy: "nd_shape (y nb) = [10]" "nd_data (y nb) = y_list" and
    gd: "GCN_default L 16 2 u0 = Inr (gcn nb, u1)"
    by blast
  from GCN_default_Inr [OF gd] have nc: "num_class (gcn nb) = 2" by blast
  from f1 n nf gd have n1: "num_nodes (g nb1) = 10"
    and nf1: "node_feat (g nb1) ''nfeat'' = Some a"
    and gd1: "GCN_default L 16 2 u0 = Inr (gcn nb1, u1)"
    by simp_all
  from epoch_logits_shape [OF sc gd1 n1 nf1 nf(2) final] obtain lg ls t t' where
    "logits nb' = Some lg" "nd_shape lg = [10, 2]" "loss nb' = Some ls"
    "call_criterion L (criterion nb1) lg (y nb1) t = Inr (ls, t')"
    by blast
  moreover from gd f1 f2 have "\<exists>u0 u1. GCN_default L 16 2 u0 = Inr (gcn nb', u1)"
    by auto
  ultimately show ?thesis using f1 f2 n nf yy nc by auto
qed

text \<open>
  The shape-only library keeps the documented shapes, and on it the 30 epochs return.
\<close>

theorem training_shapes_witness:
  "shape_contract shape_lib \<and>
   build_graph (\<lambda>t v. v) (\<lambda>k. 0) = (Inr (zero_graph, (\<lambda>k. 0)) :: unit exn + _) \<and>
   setup_cell shape_lib zero_graph 0 = Inr (zero_notebook, 6) \<and>
   py_range 30 \<noteq> [] \<and>
   (\<exists>nb'. run_epochs shape_lib zero_notebook (py_range 30) 6 = Inr (nb', 36) \<and>
      num_nodes (g nb') = 10 \<and>
      (\<exists>lg. logits nb' = Some lg \<and> nd_shape lg = [10, 2]) \<and>
      num_class (gcn nb') = 2 \<and> nd_shape (y nb') = [10] \<and> nd_data (y nb') = y_list)"
proof -
  have ne: "py_range 30 \<noteq> []"
    using length_py_range [of 30] by auto
  from shape_lib_training_loop obtain nb' where
    run: "run_epochs shape_lib zero_notebook (py_range 30) 6 = Inr (nb', 36)"
    unfolding training_loop_def ..
  from training_shapes [OF shape_lib_contract zero_build_graph shape_lib_setup ne run]
  have "num_nodes (g nb') = 10 \<and>
      (\<exists>lg. logits nb' = Some lg \<and> nd_shape lg = [10, 2]) \<and>
      num_class (gcn nb') = 2 \<and> nd_shape (y nb') = [10] \<and> nd_data (y nb') = y_list"
    by blast
  with run shape_lib_contract zero_build_graph shape_lib_setup ne show ?thesis by blast
qed

text \<open>
  Claim C9. The label list has one entry per node, 10 entries for the 10 nodes, and every
  entry is 0 or 1. The classifier \<^verbatim>\<open>GCN(16, 2)\<close> has \<open>num_class = 2\<close>, so every label is
  a class index below \<open>num_class\<close>. With a \<^verbatim>\<open>paddle.to_tensor\<close> that keeps the entries of
  the list, this holds of the label tensor and the classifier of the notebook after any
  number of epochs, that is, whenever the loss is computed.
\<close>

theorem y_list_valid_classes:
  "length y_list = 10 \<and> int (length y_list) = num_node \<and>
   (\<forall>c \<in> set y_list. c = 0 \<or> c = 1) \<and>
   (GCN_default L 16 2 t0 = Inr (self, t1) \<longrightarrow>
      num_class self = 2 \<and> (\<forall>c \<in> set y_list. 0 \<le> c \<and> c < num_class self)) \<and>
   (shape_contract L \<longrightarrow> setup_cell L g0 s0 = Inr (nb, s1) \<longrightarrow>
      run_epochs L nb eps s = Inr (nb', s') \<longrightarrow>
      nd_data (y nb') = y_list \<and> num_class (gcn nb') = 2 \<and>
      (\<forall>c \<in> set (nd_data (y nb')). 0 \<le> c \<and> c < num_class (gcn nb')))"
proof (intro conjI impI)
  show "length y_list = 10" "int (length y_list) = num_node"
    "\<forall>c \<in> set y_list. c = 0 \<or> c = 1"
    by (simp_all add: y_list_def num_node_def)
  have rng: "\<forall>c \<in> set y_list. 0 \<le> c \<and> c < 2"
    by (simp add: y_list_def)
  {
    assume "GCN_default L 16 2 t0 = Inr (self, t1)"
    from GCN_default_Inr [OF this] show nc: "num_class self = 2" by blast
    with rng show "\<forall>c \<in> set y_list. 0 \<le> c \<and> c < num_class self" by simp
  }
  assume sc: "shape_contract L" and su: "setup_cell L g0 s0 = Inr (nb, s1)"
    and run: "run_epochs L nb eps s = Inr (nb', s')"
  from setup_cell_Inr [OF su] obtain u1 u2 u3 where
    tt: "to_tensor L y_list u1 = Inr (y nb, u2)" and
    gd: "GCN_default L 16 2 u2 = Inr (gcn nb, u3)"
    by blast
  from shape_contract_to_tensor(2) [OF sc tt] run_epochs_frame [OF run]
  show yd: "nd_data (y nb') = y_list" by simp
  from GCN_default_Inr [OF gd] run_epochs_frame [OF run]
  show nc: "num_class (gcn nb') = 2" by auto
  from yd nc rng show "\<forall>c \<in> set (nd_data (y nb')). 0 \<le> c \<and> c < num_class (gcn nb')"
    by simp
qed

text \<open>
  The label 1 on the shape-only library, before and after the 30 epochs.
\<close>

theorem y_list_valid_classes_witness:
  "GCN_default shape_lib 16 2 0 = Inr (zero_gcn, 3) \<and> num_class zero_gcn = 2 \<and>
   (1::int) \<in> set y_list \<and> (0::int) \<le> 1 \<and> 1 < num_class zero_gcn \<and>
   shape_contract shape_lib \<and> setup_cell shape_lib zero_graph 0 = Inr (zero_notebook, 6) \<and>
   (\<exists>nb'. run_epochs shape_lib zero_notebook (py_range 30) 6 = Inr (nb', 36) \<and>
          nd_data (y nb') = y_list \<and> num_class (gcn nb') = 2)"
proof -
  from shape_lib_training_loop obtain nb' where
    run: "run_epochs shape_lib zero_notebook (py_range 30) 6 = Inr (nb', 36)"
    unfolding training_loop_def ..
  from y_list_valid_classes [of shape_lib 0 zero_gcn 3 zero_graph 0 zero_notebook 6 "py_range 30" 6 nb' 36]
    shape_lib_GCN_default shape_lib_contract shape_lib_setup run
  have "num_class zero_gcn = 2" "nd_data (y nb') = y_list" "num_class (gcn nb') = 2"
    by blast+
  moreover have "(1::int) \<in> set y_list" by (simp add: y_list_def)
  ultimately show ?thesis
    using shape_lib_GCN_default shape_lib_contract shape_lib_setup run by auto
qed

subsection \<open>The calls of the constructor\<close>

lemma traced_constructors:
  "GCNConv (traced L) i out act nrm = logged (Ev_GCNConv i out act nrm) (GCNConv L i out act nrm)"
  "Linear (traced L) i out = logged (Ev_Linear i out) (Linear L i out)"
  by (simp_all add: traced_def)

lemma init_gcns_traced:
  "init_gcns (traced L) isz hs is acc (s, tr) =
     andThen (init_gcns L isz hs is acc s)
       (\<lambda>(ls, s'). Inr (ls, (s', tr @ map (\<lambda>i. if i = 0 then Ev_GCNConv isz hs ''relu'' True
                                                else Ev_GCNConv hs hs ''relu'' True) is)))"
proof (induction "is" arbitrary: acc s tr)
  case Nil
  show ?case by simp
next
  case (Cons i rest)
  show ?case
  proof (cases "i = 0")
    case True
    show ?thesis
    proof (cases "GCNConv L isz hs ''relu'' True s")
      case (Inl e)
      with True show ?thesis by (simp add: traced_constructors logged_def)
    next
      case (Inr r)
      obtain m s' where "r = (m, s')" by (cases r)
      with Inr True Cons.IH [of "acc @ [m]" s' "tr @ [Ev_GCNConv isz hs ''relu'' True]"]
      show ?thesis by (simp add: traced_constructors logged_def)
    qed
  next
    case False
    show ?thesis
    proof (cases "GCNConv L hs hs ''relu'' True s")
      case (Inl e)
      with False show ?thesis by (simp add: traced_constructors logged_def)
    next
      case (Inr r)
      obtain m s' where "r = (m, s')" by (cases r)
      with Inr False Cons.IH [of "acc @ [m]" s' "tr @ [Ev_GCNConv hs hs ''relu'' True]"]
      show ?thesis by (simp add: traced_constructors logged_def)
    qed
  qed
qed

lemma GCN_init_traced:
  "GCN_init (traced L) isz nc nl hs (s, tr) =
     andThen (GCN_init L isz nc nl hs s)
       (\<lambda>(self, s'). Inr (self, (s', tr @ init_events isz nc nl hs)))"
  unfolding GCN_init_def init_gcns_traced
  by (simp add: andThen_case traced_constructors logged_def init_events_def
      split: sum.splits prod.splits)

subsection \<open>What an iteration leaves alone\<close>




















subsection \<open>Where failures come from\<close>

lemma forward_gcns_Inl_iff:
  "forward_gcns L ms gr feature s = Inl e \<longleftrightarrow>
     (\<exists>k<length ms. \<exists>fk sk.
        forward_gcns L (take k ms) gr feature s = Inr (fk, sk) \<and>
        call_graph_feature L (ms ! k) gr fk sk = Inl e)"
proof (induction ms arbitrary: feature s)
  case Nil
  show ?case by simp
next
  case (Cons m ms)
  show ?case
  proof (cases "call_graph_feature L m gr feature s")
    case (Inl e')
    then show ?thesis by (auto simp: Ex_less_Suc2)
  next
    case (Inr r)
    obtain f1 s1 where "r = (f1, s1)" by (cases r)
    with Inr Cons.IH [of f1 s1] show ?thesis by (simp add: Ex_less_Suc2)
  qed
qed

lemma forward_Inl_iff:
  "forward L self gr feature s = Inl e \<longleftrightarrow>
     (\<exists>k<length (gcns self). \<exists>fk sk.
        forward_gcns L (take k (gcns self)) gr feature s = Inr (fk, sk) \<and>
        call_graph_feature L (gcns self ! k) gr fk sk = Inl e) \<or>
     (\<exists>x t. forward_gcns L (gcns self) gr feature s = Inr (x, t) \<and>
        call_feature L (output self) x t = Inl e)"
  unfolding forward_def forward_gcns_Inl_iff [symmetric]
  by (auto simp: andThen_Inl_iff)

lemma init_gcns_Inl_iff:
  "init_gcns L isz hs is acc s = Inl e \<longleftrightarrow>
     (\<exists>k<length is. \<exists>acck sk.
        init_gcns L isz hs (take k is) acc s = Inr (acck, sk) \<and>
        GCNConv L (if is ! k = 0 then isz else hs) hs ''relu'' True sk = Inl e)"
proof (induction "is" arbitrary: acc s)
  case Nil
  show ?case by simp
next
  case (Cons i rest)
  show ?case
  proof (cases "GCNConv L (if i = 0 then isz else hs) hs ''relu'' True s")
    case (Inl e')
    then show ?thesis by (auto simp: Ex_less_Suc2 split: if_splits)
  next
    case (Inr r)
    obtain m s1 where "r = (m, s1)" by (cases r)
    with Inr Cons.IH [of "acc @ [m]" s1] show ?thesis
      by (simp add: Ex_less_Suc2 split: if_splits)
  qed
qed

lemma take_py_range: "k \<le> nat n \<Longrightarrow> take k (py_range n) = py_range (int k)"
  by (simp add: py_range_def take_map)

lemma nth_py_range: "k < nat n \<Longrightarrow> py_range n ! k = int k"
  unfolding py_range_def
proof -
  assume a: "k < nat n"
  then have "k < length [0..<nat n]" by simp
  then have "map int [0..<nat n] ! k = int ([0..<nat n] ! k)" by (rule nth_map)
  also from a have "[0..<nat n] ! k = k" by simp
  finally show "map int [0..<nat n] ! k = int k" .
qed

lemma GCN_init_Inl_iff:
  "GCN_init L isz nc nl hs s0 = Inl e \<longleftrightarrow>
     (\<exists>k<nat nl. \<exists>acck sk.
        init_gcns L isz hs (py_range (int k)) [] s0 = Inr (acck, sk) \<and>
        GCNConv L (if k = 0 then isz else hs) hs ''relu'' True sk = Inl e) \<or>
     (\<exists>ls s1. init_gcns L isz hs (py_range nl) [] s0 = Inr (ls, s1) \<and>
        Linear L hs nc s1 = Inl e)"
proof -
  have "init_gcns L isz hs (py_range nl) [] s0 = Inl e \<longleftrightarrow>
     (\<exists>k<nat nl. \<exists>acck sk.
        init_gcns L isz hs (py_range (int k)) [] s0 = Inr (acck, sk) \<and>
        GCNConv L (if k = 0 then isz else hs) hs ''relu'' True sk = Inl e)"
    unfolding init_gcns_Inl_iff length_py_range
    by (simp add: take_py_range nth_py_range cong: conj_cong)
  then show ?thesis
    unfolding GCN_init_def by (auto simp: andThen_Inl_iff)
qed

lemma run_epochs_Inl_iff:
  "run_epochs L nb eps s = Inl e \<longleftrightarrow>
     (\<exists>k<length eps. \<exists>nbk sk.
        run_epochs L nb (take k eps) s = Inr (nbk, sk) \<and>
        epoch_body L nbk (eps ! k) sk = Inl e)"
proof (induction eps arbitrary: nb s)
  case Nil
  show ?case by simp
next
  case (Cons ep eps)
  show ?case
  proof (cases "epoch_body L nb ep s")
    case (Inl e')
    then show ?thesis by (auto simp: Ex_less_Suc2)
  next
    case (Inr r)
    obtain nb1 s1 where "r = (nb1, s1)" by (cases r)
    with Inr Cons.IH [of nb1 s1] show ?thesis by (simp add: Ex_less_Suc2)
  qed
qed

lemma training_loop_Inl_iff:
  "training_loop L nb s = Inl e \<longleftrightarrow>
     (\<exists>k<30. \<exists>nbk sk.
        run_epochs L nb (py_range (int k)) s = Inr (nbk, sk) \<and>
        epoch_body L nbk (int k) sk = Inl e)"
  unfolding training_loop_def run_epochs_Inl_iff length_py_range
  by (simp add: take_py_range nth_py_range cong: conj_cong)

lemma epoch_body_Inl_iff:
  fixes L :: "('a, 'h, 's, 'x) lib"
  shows "epoch_body L nb ep s = Inl e \<longleftrightarrow>
     (node_feat (g nb) ''nfeat'' = None \<and> e = KeyError) \<or>
     (\<exists>nfeat. node_feat (g nb) ''nfeat'' = Some nfeat \<and>
        (forward L (gcn nb) (g nb) nfeat s = Inl e \<or>
         (\<exists>lg s1. forward L (gcn nb) (g nb) nfeat s = Inr (lg, s1) \<and>
            (call_criterion L (criterion nb) lg (y nb) s1 = Inl e \<or>
             (\<exists>ls s2. call_criterion L (criterion nb) lg (y nb) s1 = Inr (ls, s2) \<and>
                (backward L ls s2 = Inl e \<or>
                 (\<exists>s3. backward L ls s2 = Inr s3 \<and>
                    (step L (optim nb) s3 = Inl e \<or>
                     (\<exists>s4. step L (optim nb) s3 = Inr s4 \<and>
                        (clear_grad L (optim nb) s4 = Inl e \<or>
                         (\<exists>s5. clear_grad L (optim nb) s4 = Inr s5 \<and>
                            (numpy L ls s5 = Inl e \<or>
                             (\<exists>arr s6. numpy L ls s5 = Inr (arr, s6) \<and>
                                (getitem0 arr :: 'x exn + 'a ndarray) = Inl e)))))))))))))"
  unfolding epoch_body_def
  by (simp add: andThen_case dict_getitem_def split: option.splits sum.splits prod.splits) auto

lemma GCN_init_any_Inl_iff:
  "GCN_init_any L isz nc nl hs s0 = Inl e \<longleftrightarrow>
     ((nl = PyNone \<or> (\<exists>x. nl = PyFloat x) \<or> (\<exists>w. nl = PyStr w)) \<and> e = TypeError) \<or>
     (\<exists>n. nl = PyInt n \<and>
        ((\<exists>k<nat n. \<exists>acck sk.
            init_gcns L isz hs (py_range (int k)) [] s0 = Inr (acck, sk) \<and>
            GCNConv L (if k = 0 then isz else hs) hs ''relu'' True sk = Inl e) \<or>
         (\<exists>ls s1. init_gcns L isz hs (py_range n) [] s0 = Inr (ls, s1) \<and>
            Linear L hs nc s1 = Inl e)))"
proof (cases nl)
  case (PyInt n)
  then show ?thesis
    using GCN_init_Inl_iff [of L isz nc n hs s0 e] by (simp add: GCN_init_any_def)
qed (auto simp: GCN_init_any_def)

text \<open>
  Claim C7, amended. No component handles errors itself: none validates its input,
  catches an exception or raises one. \<^verbatim>\<open>build_graph\<close> always returns (its numpy calls get
  non-negative dimensions; \<^verbatim>\<open>pgl.Graph\<close> is taken to accept its arguments). For every
  input, a component raises \<open>e\<close> exactly when one of the calls it makes raises \<open>e\<close>,
  at the arguments and in the state that the calls before it returned:
  \<^item> \<^verbatim>\<open>GCN.__init__\<close>: the built-in \<^verbatim>\<open>range(num_layers)\<close>, with TypeError when
    \<^verbatim>\<open>num_layers\<close> is no integer; the \<^verbatim>\<open>GCNConv\<close> of some index \<open>k\<close>, after the layers
    before it were made; or \<^verbatim>\<open>Linear\<close>, after all layers were made;
  \<^item> \<^verbatim>\<open>GCN.forward\<close>: the layer of some index \<open>k\<close>, on the feature the layers before
    it returned; or the output layer, on the feature all layers returned;
  \<^item> an iteration of the loop: the subscript \<^verbatim>\<open>g.node_feat['nfeat']\<close>, with KeyError; the
    forward pass; the loss function on the logits and the labels; the backward pass on
    the loss; the optimizer step; the gradient clear; the read \<^verbatim>\<open>loss.numpy()\<close>; or its
    subscript \<^verbatim>\<open>[0]\<close>;
  \<^item> the loop: the iteration of some epoch \<open>k < 30\<close>, after the epochs before it
    returned.
  The control flow the components have is their loops: the calls \<^verbatim>\<open>GCN.__init__\<close> makes
  are one \<^verbatim>\<open>GCNConv\<close> per index of \<^verbatim>\<open>range(num_layers)\<close>, from the input size at index
  0 and from the hidden size after it, and then \<^verbatim>\<open>Linear\<close>.
\<close>

theorem failures_are_the_callees:
  fixes L :: "('a, 'h, 's, 'x) lib" and gen :: "'a rng"
  shows
  "(\<exists>r. (build_graph cast gen :: 'x exn + ('a graph \<times> 'a rng)) = Inr r) \<and>
   (GCN_init_any L isz nc nl hs s0 = Inl e \<longleftrightarrow>
      ((nl = PyNone \<or> (\<exists>x. nl = PyFloat x) \<or> (\<exists>w. nl = PyStr w)) \<and> e = TypeError) \<or>
      (\<exists>n. nl = PyInt n \<and>
         ((\<exists>k<nat n. \<exists>acck sk.
             init_gcns L isz hs (py_range (int k)) [] s0 = Inr (acck, sk) \<and>
             GCNConv L (if k = 0 then isz else hs) hs ''relu'' True sk = Inl e) \<or>
          (\<exists>ls s1. init_gcns L isz hs (py_range n) [] s0 = Inr (ls, s1) \<and>
             Linear L hs nc s1 = Inl e)))) \<and>
   (forward L self gr feature s = Inl e \<longleftrightarrow>
      (\<exists>k<length (gcns self). \<exists>fk sk.
         forward_gcns L (take k (gcns self)) gr feature s = Inr (fk, sk) \<and>
         call_graph_feature L (gcns self ! k) gr fk sk = Inl e) \<or>
      (\<exists>x t. forward_gcns L (gcns self) gr feature s = Inr (x, t) \<and>
         call_feature L (output self) x t = Inl e)) \<and>
   (epoch_body L nb ep s = Inl e \<longleftrightarrow>
      (node_feat (g nb) ''nfeat'' = None \<and> e = KeyError) \<or>
      (\<exists>nfeat. node_feat (g nb) ''nfeat'' = Some nfeat \<and>
         (forward L (gcn nb) (g nb) nfeat s = Inl e \<or>
          (\<exists>lg s1. forward L (gcn nb) (g nb) nfeat s = Inr (lg, s1) \<and>
             (call_criterion L (criterion nb) lg (y nb) s1 = Inl e \<or>
              (\<exists>ls s2. call_criterion L (criterion nb) lg (y nb) s1 = Inr (ls, s2) \<and>
                 (backward L ls s2 = Inl e \<or>
                  (\<exists>s3. backward L ls s2 = Inr s3 \<and>
                     (step L (optim nb) s3 = Inl e \<or>
                      (\<exists>s4. step L (optim nb) s3 = Inr s4 \<and>
                         (clear_grad L (optim nb) s4 = Inl e \<or>
                          (\<exists>s5. clear_grad L (optim nb) s4 = Inr s5 \<and>
                             (numpy L ls s5 = Inl e \<or>
                              (\<exists>arr s6. numpy L ls s5 = Inr (arr, s6) \<and>
                                 (getitem0 arr :: 'x exn + 'a ndarray) = Inl e)))))))))))))) \<and>
   (training_loop L nb s = Inl e \<longleftrightarrow>
      (\<exists>k<30. \<exists>nbk sk.
         run_epochs L nb (py_range (int k)) s = Inr (nbk, sk) \<and>
         epoch_body L nbk (int k) sk = Inl e)) \<and>
   (GCN_init (traced L) isz nc n hs (s0, tr) = Inr (self', (s1, tr')) \<longrightarrow>
      tr' = tr @ init_events isz nc n hs \<and> GCN_init L isz nc n hs s0 = Inr (self', s1))"
proof (intro conjI impI)
  show "\<exists>r. (build_graph cast gen :: 'x exn + ('a graph \<times> 'a rng)) = Inr r"
    by (simp add: build_graph_def randn_def num_node_def Let_def)
  show "GCN_init_any L isz nc nl hs s0 = Inl e \<longleftrightarrow>
      ((nl = PyNone \<or> (\<exists>x. nl = PyFloat x) \<or> (\<exists>w. nl = PyStr w)) \<and> e = TypeError) \<or>
      (\<exists>n. nl = PyInt n \<and>
         ((\<exists>k<nat n. \<exists>acck sk.
             init_gcns L isz hs (py_range (int k)) [] s0 = Inr (acck, sk) \<and>
             GCNConv L (if k = 0 then isz else hs) hs ''relu'' True sk = Inl e) \<or>
          (\<exists>ls s1. init_gcns L isz hs (py_range n) [] s0 = Inr (ls, s1) \<and>
             Linear L hs nc s1 = Inl e)))"
    by (rule GCN_init_any_Inl_iff)
  show "forward L self gr feature s = Inl e \<longleftrightarrow>
      (\<exists>k<length (gcns self). \<exists>fk sk.
         forward_gcns L (take k (gcns self)) gr feature s = Inr (fk, sk) \<and>
         call_graph_feature L (gcns self ! k) gr fk sk = Inl e) \<or>
      (\<exists>x t. forward_gcns L (gcns self) gr feature s = Inr (x, t) \<and>
         call_feature L (output self) x t = Inl e)"
    by (rule forward_Inl_iff)
  show "epoch_body L nb ep s = Inl e \<longleftrightarrow>
      (node_feat (g nb) ''nfeat'' = None \<and> e = KeyError) \<or>
      (\<exists>nfeat. node_feat (g nb) ''nfeat'' = Some nfeat \<and>
         (forward L (gcn nb) (g nb) nfeat s = Inl e \<or>
          (\<exists>lg s1. forward L (gcn nb) (g nb) nfeat s = Inr (lg, s1) \<and>
             (call_criterion L (criterion nb) lg (y nb) s1 = Inl e \<or>
              (\<exists>ls s2. call_criterion L (criterion nb) lg (y nb) s1 = Inr (ls, s2) \<and>
                 (backward L ls s2 = Inl e \<or>
                  (\<exists>s3. backward L ls s2 = Inr s3 \<and>
                     (step L (optim nb) s3 = Inl e \<or>
                      (\<exists>s4. step L (optim nb) s3 = Inr s4 \<and>
                         (clear_grad L (optim nb) s4 = Inl e \<or>
                          (\<exists>s5. clear_grad L (optim nb) s4 = Inr s5 \<and>
                             (numpy L ls s5 = Inl e \<or>
                              (\<exists>arr s6. numpy L ls s5 = Inr (arr, s6) \<and>
                                 (getitem0 arr :: 'x exn + 'a ndarray) = Inl e)))))))))))))"
    by (rule epoch_body_Inl_iff)
  show "training_loop L nb s = Inl e \<longleftrightarrow>
      (\<exists>k<30. \<exists>nbk sk.
         run_epochs L nb (py_range (int k)) s = Inr (nbk, sk) \<and>
         epoch_body L nbk (int k) sk = Inl e)"
    by (rule training_loop_Inl_iff)
next
  assume "GCN_init (traced L) isz nc n hs (s0, tr) = Inr (self', (s1, tr'))"
  then have "andThen (GCN_init L isz nc n hs s0)
       (\<lambda>(self, s'). Inr (self, (s', tr @ init_events isz nc n hs))) =
          Inr (self', (s1, tr'))"
    unfolding GCN_init_traced .
  then show "tr' = tr @ init_events isz nc n hs" and "GCN_init L isz nc n hs s0 = Inr (self', s1)"
    by (auto simp: andThen_Inr_iff)
qed

text \<open>
  Claim C7 says that for every input a failure surfaces only from the external library
  calls, and that each component consists of direct calls into the library with no
  control flow of its own. Neither holds of \<^verbatim>\<open>GCN.__init__\<close>, and the first does not hold
  of the loop body. \<^verbatim>\<open>GCN.__init__\<close> loops over \<^verbatim>\<open>range(num_layers)\<close> and branches on
  \<^verbatim>\<open>i == 0\<close>: with \<^verbatim>\<open>num_layers=0\<close> it makes the \<^verbatim>\<open>Linear\<close> layer only, with
  \<^verbatim>\<open>num_layers=2\<close> a \<^verbatim>\<open>GCNConv\<close> from the input size, one from the hidden size, and
  then the \<^verbatim>\<open>Linear\<close> layer. With \<^verbatim>\<open>num_layers=2.0\<close> it raises TypeError, from the
  built-in \<^verbatim>\<open>range\<close>, on a library that builds \<^verbatim>\<open>GCN(16, 2)\<close> without raising. The loop
  body raises KeyError, from the subscript \<^verbatim>\<open>g.node_feat['nfeat']\<close>, on a graph without
  that feature, on a library on which the iteration otherwise returns.
\<close>

theorem notebook_loops_and_builtin_failures:
  "GCN_init (traced shape_lib) 8 2 0 16 (0, []) =
     Inr (\<lparr>num_class = 2, num_layers = 0, hidden_size = 16, gcns = [], output = Lin 16 2 0\<rparr>,
          (1, [Ev_Linear 16 2])) \<and>
   GCN_init (traced shape_lib) 8 2 2 16 (0, []) =
     Inr (\<lparr>num_class = 2, num_layers = 2, hidden_size = 16,
            gcns = [Conv 8 16 0, Conv 16 16 1], output = Lin 16 2 2\<rparr>,
          (3, [Ev_GCNConv 8 16 ''relu'' True, Ev_GCNConv 16 16 ''relu'' True, Ev_Linear 16 2])) \<and>
   GCN_init_any shape_lib 16 2 (PyInt 2) 16 0 = Inr (zero_gcn, 3) \<and>
   GCN_init_any shape_lib 16 2 (PyFloat 2) 16 0 = Inl TypeError \<and>
   epoch_body shape_lib zero_notebook 0 6 =
     Inr (zero_notebook\<lparr>logits := Some (zeros [10, 2]), loss := Some (zeros [1]),
            epoch := Some 0, stdout := stdout zero_notebook @ [EpochLine 0 (zeros [])]\<rparr>, 7) \<and>
   epoch_body shape_lib no_feature_notebook 0 6 = Inl KeyError"
proof -
  have a: "GCN_init (traced shape_lib) 8 2 0 16 (0, []) =
     Inr (\<lparr>num_class = 2, num_layers = 0, hidden_size = 16, gcns = [], output = Lin 16 2 0\<rparr>,
          (1, [Ev_Linear 16 2]))"
    by (simp add: GCN_init_def py_range_def traced_constructors logged_def shape_lib_fields)
  have b: "GCN_init (traced shape_lib) 8 2 2 16 (0, []) =
     Inr (\<lparr>num_class = 2, num_layers = 2, hidden_size = 16,
            gcns = [Conv 8 16 0, Conv 16 16 1], output = Lin 16 2 2\<rparr>,
          (3, [Ev_GCNConv 8 16 ''relu'' True, Ev_GCNConv 16 16 ''relu'' True, Ev_Linear 16 2]))"
    by (simp add: GCN_init_def py_range_2 traced_constructors logged_def shape_lib_fields
        numeral_3_eq_3)
  have c: "GCN_init_any shape_lib 16 2 (PyInt 2) 16 0 = Inr (zero_gcn, 3)"
    by (simp add: GCN_init_any_def shape_lib_GCN_init)
  have d: "GCN_init_any shape_lib 16 2 (PyFloat 2) 16 0 = Inl TypeError"
    by (simp add: GCN_init_any_def)
  have e: "epoch_body shape_lib zero_notebook 0 6 =
     Inr (zero_notebook\<lparr>logits := Some (zeros [10, 2]), loss := Some (zeros [1]),
            epoch := Some 0, stdout := stdout zero_notebook @ [EpochLine 0 (zeros [])]\<rparr>, 7)"
    using shape_lib_epoch [of zero_notebook 0 6] by (simp add: zero_notebook_def)
  have f: "epoch_body shape_lib no_feature_notebook 0 6 = Inl KeyError"
    by (simp add: epoch_body_def no_feature_notebook_def Graph_def dict_getitem_def)
  from a b c d e f show ?thesis by (intro conjI)
qed

lemma short_labels_fields:
  "g short_labels_notebook = zero_graph" "gcn short_labels_notebook = zero_gcn"
  "criterion short_labels_notebook = Crit 3"
  "y short_labels_notebook = \<lparr>nd_dtype = Int64, nd_shape = [3], nd_data = [0, 1, 1]\<rparr>"
  by (simp_all add: short_labels_notebook_def zero_notebook_def)

lemma zero_graph_nfeat_Some: "node_feat zero_graph ''nfeat'' = Some (zeros [10, 16])"
  by (simp add: zero_graph_def Graph_def)

lemma short_labels_criterion:
  "call_criterion shape_lib (Crit 3) (zeros [10, 2])
     \<lparr>nd_dtype = Int64, nd_shape = [3], nd_data = [0, 1, 1]\<rparr> 6 = Inl ValueError"
  by (simp add: shape_lib_fields shape_criterion_def zeros_def)

text \<open>
  On the shape-only library. \<^verbatim>\<open>num_layers=2.0\<close> raises TypeError. An input size of 0
  makes the first \<^verbatim>\<open>GCNConv\<close>, and so \<^verbatim>\<open>GCN.__init__\<close>, raise ValueError. A feature with
  3 columns makes the first layer, and so \<open>forward\<close>, raise ValueError. Labels of
  shape \<open>(3)\<close> make the loss function raise ValueError after a forward pass that
  returned, and so the first iteration, and so the loop. \<^verbatim>\<open>GCN(16, 2)\<close> records its
  three constructor calls.
\<close>

theorem failures_are_the_callees_witness:
  "GCN_init_any shape_lib 16 2 (PyFloat 2) 16 0 = Inl TypeError \<and>
   GCNConv shape_lib 0 16 ''relu'' True 0 = Inl ValueError \<and>
   GCN_init_any shape_lib 0 2 (PyInt 2) 16 0 = Inl ValueError \<and>
   call_graph_feature shape_lib (gcns zero_gcn ! 0) zero_graph (zeros [10, 3]) 0 = Inl ValueError \<and>
   forward shape_lib zero_gcn zero_graph (zeros [10, 3]) 0 = Inl ValueError \<and>
   forward shape_lib zero_gcn zero_graph (zeros [10, 16]) 6 = Inr (zeros [10, 2], 6) \<and>
   call_criterion shape_lib (criterion short_labels_notebook) (zeros [10, 2])
     (y short_labels_notebook) 6 = Inl ValueError \<and>
   epoch_body shape_lib short_labels_notebook 0 6 = Inl ValueError \<and>
   run_epochs shape_lib short_labels_notebook (py_range 0) 6 = Inr (short_labels_notebook, 6) \<and>
   training_loop shape_lib short_labels_notebook 6 = Inl ValueError \<and>
   GCN_init (traced shape_lib) 16 2 2 16 (0, []) = Inr (zero_gcn, (3, init_events 16 2 2 16))"
proof -
  note fail_init = failures_are_the_callees [where L = shape_lib and isz = 0 and nc = 2 and hs = 16 and ?s0.0 = 0
      and e = ValueError, THEN conjunct2, THEN conjunct1]
  note fail_float = failures_are_the_callees [where L = shape_lib and isz = 16 and nc = 2 and hs = 16 and ?s0.0 = 0
      and e = TypeError and nl = "PyFloat 2", THEN conjunct2, THEN conjunct1]
  note fail_forward = failures_are_the_callees [where L = shape_lib and self = zero_gcn and gr = zero_graph
      and feature = "zeros [10, 3]" and s = 0 and e = ValueError,
      THEN conjunct2, THEN conjunct2, THEN conjunct1]
  note fail_epoch = failures_are_the_callees [where L = shape_lib and nb = short_labels_notebook and ep = 0 and s = 6
      and e = ValueError, THEN conjunct2, THEN conjunct2, THEN conjunct2, THEN conjunct1]
  note fail_loop = failures_are_the_callees [where L = shape_lib and nb = short_labels_notebook and s = 6
      and e = ValueError,
      THEN conjunct2, THEN conjunct2, THEN conjunct2, THEN conjunct2, THEN conjunct1]
  note calls = failures_are_the_callees [where L = shape_lib and isz = 16 and nc = 2 and n = 2 and hs = 16
      and ?s0.0 = 0 and tr = "[]" and self' = zero_gcn and ?s1.0 = 3
      and tr' = "init_events 16 2 2 16",
      THEN conjunct2, THEN conjunct2, THEN conjunct2, THEN conjunct2, THEN conjunct2]
  have float: "GCN_init_any shape_lib 16 2 (PyFloat 2) 16 0 = Inl TypeError"
    unfolding fail_float by simp
  have conv0: "GCNConv shape_lib 0 16 ''relu'' True 0 = Inl ValueError"
    by (simp add: shape_lib_fields)
  have "\<exists>k<nat 2. \<exists>acck sk.
          init_gcns shape_lib 0 16 (py_range (int k)) [] 0 = Inr (acck, sk) \<and>
          GCNConv shape_lib (if k = 0 then 0 else 16) 16 ''relu'' True sk = Inl ValueError"
    using conv0 by (intro exI [of _ 0]) (simp add: py_range_def)
  then have init: "GCN_init_any shape_lib 0 2 (PyInt 2) 16 0 = Inl ValueError"
    unfolding fail_init by simp
  have layer0: "call_graph_feature shape_lib (gcns zero_gcn ! 0) zero_graph (zeros [10, 3]) 0 =
      Inl ValueError"
    by (simp add: zero_gcn_def shape_lib_fields shape_conv_def zeros_def)
  have "\<exists>k<length (gcns zero_gcn). \<exists>fk sk.
          forward_gcns shape_lib (take k (gcns zero_gcn)) zero_graph (zeros [10, 3]) 0 = Inr (fk, sk) \<and>
          call_graph_feature shape_lib (gcns zero_gcn ! k) zero_graph fk sk = Inl ValueError"
    using layer0 by (intro exI [of _ 0]) (simp add: zero_gcn_def)
  then have fw_bad: "forward shape_lib zero_gcn zero_graph (zeros [10, 3]) 0 = Inl ValueError"
    unfolding fail_forward by simp
  have fw_ok: "forward shape_lib zero_gcn zero_graph (zeros [10, 16]) 6 = Inr (zeros [10, 2], 6)"
    by (rule shape_lib_forward)
  have crit: "call_criterion shape_lib (criterion short_labels_notebook) (zeros [10, 2])
     (y short_labels_notebook) 6 = Inl ValueError"
    unfolding short_labels_fields by (rule short_labels_criterion)
  have epoch: "epoch_body shape_lib short_labels_notebook 0 6 = Inl ValueError"
    unfolding fail_epoch
    using fw_ok crit zero_graph_nfeat_Some
    by (simp add: short_labels_fields)
  have none: "run_epochs shape_lib short_labels_notebook (py_range 0) 6 =
      Inr (short_labels_notebook, 6)"
    by (simp add: py_range_def)
  have "\<exists>k<30. \<exists>nbk sk.
          run_epochs shape_lib short_labels_notebook (py_range (int k)) 6 = Inr (nbk, sk) \<and>
          epoch_body shape_lib nbk (int k) sk = Inl ValueError"
    using none epoch by (intro exI [of _ 0]) simp
  then have loop: "training_loop shape_lib short_labels_notebook 6 = Inl ValueError"
    unfolding fail_loop .
  have "GCN_init (traced shape_lib) 16 2 2 16 (0, []) = Inr (zero_gcn, (3, init_events 16 2 2 16))"
    by (simp add: GCN_init_traced shape_lib_GCN_init)
  with calls have rec: "GCN_init (traced shape_lib) 16 2 2 16 (0, []) =
      Inr (zero_gcn, (3, init_events 16 2 2 16))"
    by simp
  from float conv0 init layer0 fw_bad fw_ok crit epoch none loop rec
  show ?thesis by (intro conjI)
qed

end
